theory Spec2Isabelle
  imports Main "HOL-Library.Sublist"
begin

section \<open>Python values\<close>

text \<open>
  A Python \<open>str\<close> is a sequence of Unicode code points, so it is modelled as a list of
  code points (natural numbers); \<open>len\<close>, slicing and \<open>strip\<close> then count what Python
  counts.  A \<open>bytes\<close> object is a list of 8-bit characters.  String literals of the source
  are written \<open>lit ''...''\<close>; the few literals outside ASCII are given by their code points.
\<close>

type_synonym pystr = "nat list"
type_synonym bytes = "char list"

definition lit :: "string \<Rightarrow> pystr" where
  "lit s = map of_char s"

text \<open>\<open>str.isspace\<close> for one code point: the characters \<open>str.strip()\<close> and
  \<open>str.split()\<close> treat as whitespace.\<close>

definition py_isspace :: "nat \<Rightarrow> bool" where
  "py_isspace c \<longleftrightarrow>
     (9 \<le> c \<and> c \<le> 13) \<or> (28 \<le> c \<and> c \<le> 32) \<or> c = 133 \<or> c = 160 \<or> c = 5760 \<or>
     (8192 \<le> c \<and> c \<le> 8202) \<or> c = 8232 \<or> c = 8233 \<or> c = 8239 \<or> c = 8287 \<or> c = 12288"

text \<open>\<open>s.strip()\<close>\<close>

definition py_strip :: "pystr \<Rightarrow> pystr" where
  "py_strip s = rev (dropWhile py_isspace (rev (dropWhile py_isspace s)))"

text \<open>\<open>sep.join(xs)\<close>\<close>

fun py_join :: "pystr \<Rightarrow> pystr list \<Rightarrow> pystr" where
  "py_join sep [] = []"
| "py_join sep [x] = x"
| "py_join sep (x # y # ys) = x @ sep @ py_join sep (y # ys)"

text \<open>\<open>sub in s\<close>\<close>

fun py_in :: "pystr \<Rightarrow> pystr \<Rightarrow> bool" where
  "py_in sub [] = (sub = [])"
| "py_in sub (c # cs) = (prefix sub (c # cs) \<or> py_in sub cs)"


text \<open>\<open>str(n)\<close> for a non-negative integer: its decimal digits.\<close>

function str_of_nat :: "nat \<Rightarrow> pystr" where
  "str_of_nat n = (if n < 10 then [48 + n] else str_of_nat (n div 10) @ [48 + n mod 10])"
  by pat_completeness auto
termination
  by (relation "measure id") auto

declare str_of_nat.simps [simp del]

text \<open>A raised exception, carrying \<open>str(exc)\<close>.\<close>

datatype exn = Exception pystr

fun exn_str :: "exn \<Rightarrow> pystr" where
  "exn_str (Exception msg) = msg"

text \<open>\<open>d.get(key, default)\<close> on a dict kept as an association list.\<close>

definition dict_get :: "('k \<times> 'v) list \<Rightarrow> 'k \<Rightarrow> 'v \<Rightarrow> 'v" where
  "dict_get d k dflt = (case map_of d k of None \<Rightarrow> dflt | Some v \<Rightarrow> v)"

section \<open>Results of a strategy and responses of the service\<close>

text \<open>Metadata values are strings (PDF) or integers (image size).\<close>

datatype mval = MStr pystr | MInt int

text \<open>The dict a strategy returns.  A key that the dict does not have is \<open>None\<close>, so that
  \<open>result.get(key, default)\<close> of the dispatcher has its default branch.\<close>

record result_dict =
  text_key :: "pystr option"
  page_count_key :: "int option"
  metadata_key :: "(pystr \<times> mval) list option"

text \<open>\<open>class ExtractResponse(BaseModel)\<close>\<close>

record ExtractResponse =
  resp_text :: pystr
  resp_page_count :: int
  resp_metadata :: "(pystr \<times> mval) list"

text \<open>\<open>HTTPException(status_code, detail)\<close>\<close>

datatype http_exception = HTTPException nat pystr

section \<open>The libraries, as the strategies see them\<close>

text \<open>
  A document the library has opened is read lazily: every later read of it is another
  library call, which returns or raises.  An element the code reads from an opened document
  is therefore either its value (\<open>Inr\<close>) or the exception raised when it is read (\<open>Inl\<close>).
\<close>

text \<open>A PDF opened by \<open>fitz.open\<close>: for every page, in page order, the text that
  \<open>page.get_text("text")\<close> returns, or the exception raised when the loop reaches the page
  (an encrypted document raises at its first page); what reading \<open>doc.metadata\<close> gives; and
  the exception \<open>doc.close()\<close> raises, if any.\<close>

record pdf_document =
  pdf_pages :: "(exn + pystr) list"
  pdf_metadata :: "exn + (pystr \<times> pystr) list option"
  pdf_close :: "exn option"

text \<open>A document of python-docx: the body paragraphs, each with \<open>para.text\<close> and
  \<open>para.style.name\<close> or the exception raised when the paragraph is read, and the tables,
  each row the texts of \<open>row.cells\<close> or the exception raised when the row is read.\<close>

record docx_paragraph =
  para_text :: pystr
  para_style_name :: pystr

record docx_document =
  docx_paragraphs :: "(exn + docx_paragraph) list"
  docx_tables :: "(exn + pystr list) list list"

text \<open>A workbook of openpyxl: the sheets in \<open>wb.sheetnames\<close> order; \<open>ws.iter_rows\<close> yields
  each row or raises; a cell is \<open>None\<close> or \<open>Some (str(v))\<close>; and the exception
  \<open>wb.close()\<close> raises, if any.\<close>

record xlsx_sheet =
  sheet_name :: pystr
  sheet_rows :: "(exn + pystr option list) list"

record xlsx_workbook =
  wb_sheets :: "xlsx_sheet list"
  wb_close :: "exn option"

text \<open>A presentation of python-pptx.  A shape has a text frame (paragraphs, each the list
  of its run texts, or the exception raised when it is read) when \<open>has_text_frame\<close>, and a
  table (rows, each the texts of its cells, or the exception raised when it is read) when
  \<open>has_table\<close>; a slide has notes when \<open>has_notes_slide\<close>, and reading their text returns it
  or raises.\<close>

record pptx_shape =
  shape_text_frame :: "(exn + pystr list) list option"
  shape_table :: "(exn + pystr list) list option"

record pptx_slide =
  slide_shapes :: "pptx_shape list"
  slide_notes :: "(exn + pystr) option"

text \<open>Values of \<open>json.loads\<close>, and of the cells of \<open>nbformat\<close> (a \<open>NotebookNode\<close> is a
  dict).\<close>

datatype json =
  JNull | JBool bool | JInt int | JFloat | JStr pystr | JList "json list" | JDict "(pystr \<times> json) list"

text \<open>A parse tree of BeautifulSoup: tags with their children, text nodes, and the strings
  \<open>get_text\<close> leaves out (comments, doctypes).\<close>

datatype soup = Tag pystr "soup list" | NavigableString pystr | Comment pystr

text \<open>An image opened by Pillow.\<close>

record pil_image =
  img_mode :: pystr
  img_width :: int
  img_height :: int

text \<open>The response of \<open>requests.get\<close>.\<close>

record http_response =
  status_code :: nat
  response_text :: pystr
  response_content :: bytes

text \<open>
  What the strategies import, as parameters of the model: every library call either raises
  or returns.  \<open>bs4_BeautifulSoup\<close> is \<open>None\<close> when \<open>from bs4 import BeautifulSoup\<close> raises
  ImportError; \<open>OCR_AVAILABLE\<close> is the flag computed once when \<open>extractors/image.py\<close> is
  imported; \<open>requests_get url authorization\<close> is \<open>requests.get\<close> with that
  \<open>Authorization\<close> header, which returns a response or raises a \<open>RequestException\<close>.
\<close>

record env =
  decode_utf8_replace :: "bytes \<Rightarrow> pystr"
  fitz_open :: "bytes \<Rightarrow> exn + pdf_document"
  docx_Document :: "bytes \<Rightarrow> exn + docx_document"
  openpyxl_load_workbook :: "bytes \<Rightarrow> exn + xlsx_workbook"
  pptx_Presentation :: "bytes \<Rightarrow> exn + pptx_slide list"
  nbformat_reads_cells :: "pystr \<Rightarrow> exn + json"
  json_loads :: "pystr \<Rightarrow> exn + json"
  bs4_BeautifulSoup :: "(pystr \<Rightarrow> exn + soup) option"
  OCR_AVAILABLE :: bool
  PILImage_open :: "bytes \<Rightarrow> exn + pil_image"
  img_convert_RGB :: "pil_image \<Rightarrow> exn + pil_image"
  pytesseract_image_to_string :: "pil_image \<Rightarrow> exn + pystr"
  requests_get :: "pystr \<Rightarrow> pystr \<Rightarrow> exn + http_response"

section \<open>extractors/pdf.py\<close>

definition PAGE_BREAK :: pystr where
  "PAGE_BREAK = [10, 10] @ lit ''---PAGE BREAK---'' @ [10, 10]"

text \<open>The loop over the pages: \<open>page_texts\<close> is the list built so far.  The loop is not
  inside a \<open>try\<close>: an exception raised at a page leaves \<open>extract\<close>.\<close>

fun pdf_page_loop :: "pystr list \<Rightarrow> (exn + pystr) list \<Rightarrow> exn + pystr list" where
  "pdf_page_loop page_texts [] = Inr page_texts"
| "pdf_page_loop page_texts (Inl exc # rest) = Inl exc"
| "pdf_page_loop page_texts (Inr page_text # rest) =
     pdf_page_loop (if py_strip page_text \<noteq> [] then page_texts @ [page_text] else page_texts) rest"

definition pdf_extract :: "env \<Rightarrow> bytes \<Rightarrow> pystr \<Rightarrow> exn + result_dict" where
  "pdf_extract e file_bytes filename =
     (case fitz_open e file_bytes of
        Inl exc \<Rightarrow>
          Inr \<lparr>text_key = Some (lit ''[PDF Error] Could not open '' @ filename @ lit '': '' @ exn_str exc),
               page_count_key = Some 0, metadata_key = None\<rparr>
      | Inr doc \<Rightarrow>
          (case pdf_page_loop [] (pdf_pages doc) of
             Inl exc \<Rightarrow> Inl exc
           | Inr page_texts \<Rightarrow>
               (case pdf_metadata doc of
                  Inl exc \<Rightarrow> Inl exc
                | Inr metadata \<Rightarrow>
                    (case pdf_close doc of
                       Some exc \<Rightarrow> Inl exc
                     | None \<Rightarrow>
                         (let meta = (case metadata of None \<Rightarrow> [] | Some m \<Rightarrow> m);
                              full_text = py_join PAGE_BREAK page_texts
                          in Inr \<lparr>text_key = Some full_text,
                                  page_count_key = Some (int (length page_texts)),
                                  metadata_key = Some
                                    [(lit ''title'', MStr (dict_get meta (lit ''title'') [])),
                                     (lit ''author'', MStr (dict_get meta (lit ''author'') [])),
                                     (lit ''subject'', MStr (dict_get meta (lit ''subject'') []))]\<rparr>)))))"

section \<open>extractors/office.py\<close>

text \<open>None of the three functions has a \<open>try\<close>: an exception raised by any read leaves
  the function, and the parts collected so far are lost.\<close>

subsection \<open>DOCX\<close>

fun docx_para_loop :: "pystr list \<Rightarrow> (exn + docx_paragraph) list \<Rightarrow> exn + pystr list" where
  "docx_para_loop parts [] = Inr parts"
| "docx_para_loop parts (Inl exc # rest) = Inl exc"
| "docx_para_loop parts (Inr para # rest) =
     (let text = py_strip (para_text para)
      in docx_para_loop
           (if text \<noteq> [] then
              (if prefix (lit ''Heading'') (para_style_name para)
               then parts @ [[10] @ lit ''## '' @ text @ [10]]
               else parts @ [text])
            else parts)
           rest)"

text \<open>The rows of a table (of a document or of a slide): a row is the stripped cell texts
  joined by \<open>" | "\<close>, appended when it is not blank.\<close>

fun table_row_loop :: "pystr list \<Rightarrow> (exn + pystr list) list \<Rightarrow> exn + pystr list" where
  "table_row_loop rows [] = Inr rows"
| "table_row_loop rows (Inl exc # rest) = Inl exc"
| "table_row_loop rows (Inr cells # rest) =
     (let row_text = py_join (lit '' | '') (map py_strip cells)
      in table_row_loop (if py_strip row_text \<noteq> [] then rows @ [row_text] else rows) rest)"

fun docx_table_loop :: "pystr list \<Rightarrow> (exn + pystr list) list list \<Rightarrow> exn + pystr list" where
  "docx_table_loop parts [] = Inr parts"
| "docx_table_loop parts (table # rest) =
     (case table_row_loop [] table of
        Inl exc \<Rightarrow> Inl exc
      | Inr rows \<Rightarrow>
          docx_table_loop (if rows \<noteq> [] then parts @ [[10] @ py_join [10] rows @ [10]] else parts) rest)"

definition office_extract_docx :: "env \<Rightarrow> bytes \<Rightarrow> pystr \<Rightarrow> exn + result_dict" where
  "office_extract_docx e file_bytes filename =
     (case docx_Document e file_bytes of
        Inl exc \<Rightarrow> Inl exc
      | Inr doc \<Rightarrow>
          (case docx_para_loop [] (docx_paragraphs doc) of
             Inl exc \<Rightarrow> Inl exc
           | Inr paragraph_parts \<Rightarrow>
               (case docx_table_loop paragraph_parts (docx_tables doc) of
                  Inl exc \<Rightarrow> Inl exc
                | Inr parts \<Rightarrow>
                    Inr \<lparr>text_key = Some (py_join [10] parts), page_count_key = Some 0,
                         metadata_key = None\<rparr>)))"

subsection \<open>XLSX\<close>

fun xlsx_row_loop :: "pystr list \<Rightarrow> (exn + pystr option list) list \<Rightarrow> exn + pystr list" where
  "xlsx_row_loop parts [] = Inr parts"
| "xlsx_row_loop parts (Inl exc # rest) = Inl exc"
| "xlsx_row_loop parts (Inr row # rest) =
     (let cells = concat (map (\<lambda>v. case v of None \<Rightarrow> [] | Some s \<Rightarrow> [s]) row)
      in xlsx_row_loop (if cells \<noteq> [] then parts @ [py_join [9] cells] else parts) rest)"

fun xlsx_sheet_loop :: "pystr list \<Rightarrow> xlsx_sheet list \<Rightarrow> exn + pystr list" where
  "xlsx_sheet_loop parts [] = Inr parts"
| "xlsx_sheet_loop parts (ws # rest) =
     (case xlsx_row_loop (parts @ [[10] @ lit ''# Sheet: '' @ sheet_name ws @ [10]]) (sheet_rows ws) of
        Inl exc \<Rightarrow> Inl exc
      | Inr with_rows \<Rightarrow> xlsx_sheet_loop with_rows rest)"

definition office_extract_xlsx :: "env \<Rightarrow> bytes \<Rightarrow> pystr \<Rightarrow> exn + result_dict" where
  "office_extract_xlsx e file_bytes filename =
     (case openpyxl_load_workbook e file_bytes of
        Inl exc \<Rightarrow> Inl exc
      | Inr wb \<Rightarrow>
          (case xlsx_sheet_loop [] (wb_sheets wb) of
             Inl exc \<Rightarrow> Inl exc
           | Inr parts \<Rightarrow>
               (case wb_close wb of
                  Some exc \<Rightarrow> Inl exc
                | None \<Rightarrow>
                    Inr \<lparr>text_key = Some (py_join [10] parts), page_count_key = Some 0,
                         metadata_key = None\<rparr>)))"

subsection \<open>PPTX\<close>

fun pptx_para_loop :: "pystr list \<Rightarrow> (exn + pystr list) list \<Rightarrow> exn + pystr list" where
  "pptx_para_loop slide_parts [] = Inr slide_parts"
| "pptx_para_loop slide_parts (Inl exc # rest) = Inl exc"
| "pptx_para_loop slide_parts (Inr runs # rest) =
     (let line = py_strip (concat runs)
      in pptx_para_loop (if line \<noteq> [] then slide_parts @ [line] else slide_parts) rest)"

fun pptx_shape_loop :: "pystr list \<Rightarrow> pptx_shape list \<Rightarrow> exn + pystr list" where
  "pptx_shape_loop slide_parts [] = Inr slide_parts"
| "pptx_shape_loop slide_parts (shape # rest) =
     (case (case shape_text_frame shape of
              None \<Rightarrow> Inr slide_parts
            | Some paragraphs \<Rightarrow> pptx_para_loop slide_parts paragraphs) of
        Inl exc \<Rightarrow> Inl exc
      | Inr with_text \<Rightarrow>
          (case (case shape_table shape of
                   None \<Rightarrow> Inr with_text
                 | Some rows \<Rightarrow> table_row_loop with_text rows) of
             Inl exc \<Rightarrow> Inl exc
           | Inr with_table \<Rightarrow> pptx_shape_loop with_table rest))"

text \<open>\<open>f"\\n--- Slide {slide_num} ---"\<close>\<close>

definition slide_header :: "nat \<Rightarrow> pystr" where
  "slide_header slide_num = [10] @ lit ''--- Slide '' @ str_of_nat slide_num @ lit '' ---''"

text \<open>The body of the loop over the slides, up to the test \<open>len(slide_parts) > 1\<close>.\<close>

definition pptx_slide_parts :: "nat \<Rightarrow> pptx_slide \<Rightarrow> exn + pystr list" where
  "pptx_slide_parts slide_num slide =
     (case pptx_shape_loop [slide_header slide_num] (slide_shapes slide) of
        Inl exc \<Rightarrow> Inl exc
      | Inr slide_parts \<Rightarrow>
          (case slide_notes slide of
             None \<Rightarrow> Inr slide_parts
           | Some (Inl exc) \<Rightarrow> Inl exc
           | Some (Inr notes) \<Rightarrow>
               (let notes_text = py_strip notes
                in if notes_text \<noteq> [] then Inr (slide_parts @ [lit ''[Notes] '' @ notes_text])
                   else Inr slide_parts)))"

fun pptx_slide_loop :: "pystr list \<Rightarrow> nat \<Rightarrow> pptx_slide list \<Rightarrow> exn + pystr list" where
  "pptx_slide_loop parts slide_num [] = Inr parts"
| "pptx_slide_loop parts slide_num (slide # rest) =
     (case pptx_slide_parts slide_num slide of
        Inl exc \<Rightarrow> Inl exc
      | Inr slide_parts \<Rightarrow>
          pptx_slide_loop (if length slide_parts > 1 then parts @ slide_parts else parts)
            (Suc slide_num) rest)"

definition office_extract_pptx :: "env \<Rightarrow> bytes \<Rightarrow> pystr \<Rightarrow> exn + result_dict" where
  "office_extract_pptx e file_bytes filename =
     (case pptx_Presentation e file_bytes of
        Inl exc \<Rightarrow> Inl exc
      | Inr slides \<Rightarrow>
          (case pptx_slide_loop [] 1 slides of
             Inl exc \<Rightarrow> Inl exc
           | Inr parts \<Rightarrow>
               Inr \<lparr>text_key = Some (py_join [10] parts),
                    page_count_key = Some (int (length slides)), metadata_key = None\<rparr>))"

section \<open>The exceptions raised while a document is read\<close>

text \<open>An outcome raises the first of the given exceptions: it is that exception when there
  is one, and a value when there is none.\<close>

definition raises_first :: "exn + 'a \<Rightarrow> exn list \<Rightarrow> bool" where
  "raises_first outcome excs =
     (case outcome of Inl exc \<Rightarrow> excs \<noteq> [] \<and> exc = hd excs | Inr v \<Rightarrow> excs = [])"

text \<open>The exceptions among the elements of a list, in order.\<close>

definition exns :: "(exn + 'a) list \<Rightarrow> exn list" where
  "exns xs = concat (map (\<lambda>x. case x of Inl exc \<Rightarrow> [exc] | Inr v \<Rightarrow> []) xs)"


definition docx_raised :: "docx_document \<Rightarrow> exn list" where
  "docx_raised doc = exns (docx_paragraphs doc) @ concat (map exns (docx_tables doc))"

definition sheets_raised :: "xlsx_sheet list \<Rightarrow> exn list" where
  "sheets_raised sheets = concat (map (\<lambda>ws. exns (sheet_rows ws)) sheets)"

definition xlsx_raised :: "xlsx_workbook \<Rightarrow> exn list" where
  "xlsx_raised wb =
     sheets_raised (wb_sheets wb) @ (case wb_close wb of None \<Rightarrow> [] | Some exc \<Rightarrow> [exc])"

definition shape_raised :: "pptx_shape \<Rightarrow> exn list" where
  "shape_raised shape =
     (case shape_text_frame shape of None \<Rightarrow> [] | Some paragraphs \<Rightarrow> exns paragraphs)
     @ (case shape_table shape of None \<Rightarrow> [] | Some rows \<Rightarrow> exns rows)"

definition slide_raised :: "pptx_slide \<Rightarrow> exn list" where
  "slide_raised slide =
     concat (map shape_raised (slide_shapes slide))
     @ (case slide_notes slide of Some (Inl exc) \<Rightarrow> [exc] | _ \<Rightarrow> [])"

definition pptx_raised :: "pptx_slide list \<Rightarrow> exn list" where
  "pptx_raised slides = concat (map slide_raised slides)"

section \<open>extractors/notebook.py\<close>

text \<open>\<open>type(v).__name__\<close>, for the messages of the exceptions below.\<close>

fun py_type_name :: "json \<Rightarrow> pystr" where
  "py_type_name JNull = lit ''NoneType''"
| "py_type_name (JBool b) = lit ''bool''"
| "py_type_name (JInt i) = lit ''int''"
| "py_type_name JFloat = lit ''float''"
| "py_type_name (JStr s) = lit ''str''"
| "py_type_name (JList xs) = lit ''list''"
| "py_type_name (JDict d) = lit ''dict''"

definition AttributeError :: "json \<Rightarrow> string \<Rightarrow> exn" where
  "AttributeError v attr =
     Exception ([39] @ py_type_name v @ [39] @ lit '' object has no attribute '' @ [39] @ lit attr @ [39])"

text \<open>\<open>v.get(key, default)\<close>: only a dict has \<open>get\<close>.\<close>

definition json_get :: "json \<Rightarrow> pystr \<Rightarrow> json \<Rightarrow> exn + json" where
  "json_get v key dflt =
     (case v of JDict d \<Rightarrow> Inr (dict_get d key dflt) | _ \<Rightarrow> Inl (AttributeError v ''get''))"

text \<open>\<open>"".join(source)\<close> for a list: every item must be a \<open>str\<close>.\<close>

fun join_fragments :: "nat \<Rightarrow> json list \<Rightarrow> exn + pystr" where
  "join_fragments i [] = Inr []"
| "join_fragments i (x # xs) =
     (case x of
        JStr s \<Rightarrow> (case join_fragments (Suc i) xs of Inl exc \<Rightarrow> Inl exc | Inr r \<Rightarrow> Inr (s @ r))
      | _ \<Rightarrow>
          Inl (Exception (lit ''sequence item '' @ str_of_nat i @ lit '': expected str instance, ''
                 @ py_type_name x @ lit '' found'')))"

text \<open>What \<open>for idx, cell in enumerate(cells)\<close> iterates over: the items of a list, the keys
  of a dict, the characters of a string; anything else is not iterable.\<close>

definition py_iter :: "json \<Rightarrow> exn + json list" where
  "py_iter v =
     (case v of
        JList xs \<Rightarrow> Inr xs
      | JDict d \<Rightarrow> Inr (map (\<lambda>kv. JStr (fst kv)) d)
      | JStr s \<Rightarrow> Inr (map (\<lambda>c. JStr [c]) s)
      | _ \<Rightarrow> Inl (Exception ([39] @ py_type_name v @ [39] @ lit '' object is not iterable'')))"

definition code_fence :: "pystr \<Rightarrow> pystr" where
  "code_fence source = [10, 96, 96, 96] @ lit ''python'' @ [10] @ source @ [10, 96, 96, 96, 10]"

text \<open>The body of the loop over the cells: the part the cell appends to \<open>parts\<close>, if any.\<close>

definition notebook_cell :: "json \<Rightarrow> exn + pystr option" where
  "notebook_cell cell =
     (case json_get cell (lit ''cell_type'') (JStr []) of
        Inl exc \<Rightarrow> Inl exc
      | Inr cell_type \<Rightarrow>
     (case json_get cell (lit ''source'') (JStr []) of
        Inl exc \<Rightarrow> Inl exc
      | Inr source0 \<Rightarrow>
     (case (case source0 of
              JList fragments \<Rightarrow> join_fragments 0 fragments
            | JStr s \<Rightarrow> Inr s
            | _ \<Rightarrow> Inl (AttributeError source0 ''strip'')) of
        Inl exc \<Rightarrow> Inl exc
      | Inr joined \<Rightarrow>
          (let source = py_strip joined
           in if source = [] then Inr None
              else if cell_type = JStr (lit ''markdown'') then Inr (Some source)
              else if cell_type = JStr (lit ''code'') then Inr (Some (code_fence source))
              else if cell_type = JStr (lit ''raw'') then Inr (Some source)
              else Inr None))))"

fun notebook_cell_loop :: "pystr list \<Rightarrow> json list \<Rightarrow> exn + pystr list" where
  "notebook_cell_loop parts [] = Inr parts"
| "notebook_cell_loop parts (cell # rest) =
     (case notebook_cell cell of
        Inl exc \<Rightarrow> Inl exc
      | Inr None \<Rightarrow> notebook_cell_loop parts rest
      | Inr (Some part) \<Rightarrow> notebook_cell_loop (parts @ [part]) rest)"

text \<open>The two parse paths: \<open>nbformat.reads(...).cells\<close>, and on any failure
  \<open>json.loads(...).get("cells", [])\<close>.\<close>

definition notebook_cells :: "env \<Rightarrow> bytes \<Rightarrow> exn + json" where
  "notebook_cells e file_bytes =
     (case nbformat_reads_cells e (decode_utf8_replace e file_bytes) of
        Inr cells \<Rightarrow> Inr cells
      | Inl _ \<Rightarrow>
          (case json_loads e (decode_utf8_replace e file_bytes) of
             Inl exc \<Rightarrow> Inl exc
           | Inr raw \<Rightarrow> json_get raw (lit ''cells'') (JList [])))"

definition notebook_extract :: "env \<Rightarrow> bytes \<Rightarrow> pystr \<Rightarrow> exn + result_dict" where
  "notebook_extract e file_bytes filename =
     (case notebook_cells e file_bytes of
        Inl exc \<Rightarrow>
          Inr \<lparr>text_key = Some (lit ''[Notebook Error] Could not parse '' @ filename @ lit '': ''
                                    @ exn_str exc),
               page_count_key = Some 0, metadata_key = None\<rparr>
      | Inr cells \<Rightarrow>
          (case py_iter cells of
             Inl exc \<Rightarrow> Inl exc
           | Inr cs \<Rightarrow>
               (case notebook_cell_loop [lit ''# Jupyter Notebook: '' @ filename @ [10]] cs of
                  Inl exc \<Rightarrow> Inl exc
                | Inr parts \<Rightarrow>
                    Inr \<lparr>text_key = Some (py_join [10, 10] parts), page_count_key = Some 0,
                         metadata_key = None\<rparr>)))"

section \<open>extractors/html\_extractor.py\<close>

subsection \<open>The fallback without BeautifulSoup\<close>

text \<open>\<open>re.sub(r"<[^>]+>", " ", s)\<close>: at a \<open><\<close>, the pattern matches when at least one
  character other than \<open>>\<close> follows and a \<open>>\<close> ends the run; the match is replaced by a
  space and the scan goes on behind it.\<close>

function re_sub_tags :: "pystr \<Rightarrow> pystr" where
  "re_sub_tags [] = []"
| "re_sub_tags (c # cs) =
     (if c = 60 \<and> takeWhile (\<lambda>x. x \<noteq> 62) cs \<noteq> [] \<and> dropWhile (\<lambda>x. x \<noteq> 62) cs \<noteq> []
      then 32 # re_sub_tags (tl (dropWhile (\<lambda>x. x \<noteq> 62) cs))
      else c # re_sub_tags cs)"
  by pat_completeness auto
termination
proof (relation "measure length")
  fix c :: nat and cs :: "nat list"
  have "length (tl (dropWhile (\<lambda>x. x \<noteq> 62) cs)) \<le> length cs"
    using length_dropWhile_le [of "\<lambda>x. x \<noteq> 62" cs] by simp
  then show "(tl (dropWhile (\<lambda>x. x \<noteq> 62) cs), c # cs) \<in> measure length"
    by simp
qed auto

declare re_sub_tags.simps [simp del]

text \<open>\<open>s.split()\<close>: the maximal runs of characters that are not whitespace; \<open>word\<close> is the
  run being read.\<close>

fun py_split_loop :: "pystr \<Rightarrow> pystr \<Rightarrow> pystr list" where
  "py_split_loop word [] = (if word = [] then [] else [word])"
| "py_split_loop word (c # cs) =
     (if py_isspace c then (if word = [] then py_split_loop [] cs else word # py_split_loop [] cs)
      else py_split_loop (word @ [c]) cs)"

definition py_split :: "pystr \<Rightarrow> pystr list" where
  "py_split s = py_split_loop [] s"

subsection \<open>BeautifulSoup\<close>

fun tag_named :: "pystr list \<Rightarrow> soup \<Rightarrow> bool" where
  "tag_named names (Tag name children) = (name \<in> set names)"
| "tag_named names (NavigableString s) = False"
| "tag_named names (Comment s) = False"

text \<open>\<open>for tag in soup(names): tag.decompose()\<close>: every tag with one of the names goes,
  with all it contains, at any depth.\<close>

fun decompose_all :: "pystr list \<Rightarrow> soup \<Rightarrow> soup" where
  "decompose_all names (Tag name children) =
     Tag name (map (decompose_all names) (filter (\<lambda>c. \<not> tag_named names c) children))"
| "decompose_all names (NavigableString s) = NavigableString s"
| "decompose_all names (Comment s) = Comment s"

text \<open>\<open>el.descendants\<close>: all nodes below \<open>el\<close>, in document order.\<close>

fun descendants :: "soup \<Rightarrow> soup list" where
  "descendants (Tag name children) = concat (map (\<lambda>c. c # descendants c) children)"
| "descendants (NavigableString s) = []"
| "descendants (Comment s) = []"

text \<open>\<open>el.find(name)\<close>: the first tag of that name below \<open>el\<close>.\<close>

definition soup_find :: "pystr \<Rightarrow> soup \<Rightarrow> soup option" where
  "soup_find name el = List.find (tag_named [name]) (descendants el)"

fun navigable_strings :: "soup list \<Rightarrow> pystr list" where
  "navigable_strings [] = []"
| "navigable_strings (NavigableString s # rest) = s # navigable_strings rest"
| "navigable_strings (x # rest) = navigable_strings rest"

text \<open>\<open>el.get_text(sep, strip=True)\<close>: the text nodes below \<open>el\<close>, each stripped, the blank
  ones left out, joined by \<open>sep\<close>.\<close>

definition get_text_strip :: "pystr \<Rightarrow> soup \<Rightarrow> pystr" where
  "get_text_strip sep el =
     py_join sep (filter (\<lambda>s. s \<noteq> []) (map py_strip (navigable_strings (descendants el))))"

subsection \<open>The strategy\<close>

definition NON_CONTENT :: "pystr list" where
  "NON_CONTENT = map lit [''script'', ''style'', ''nav'', ''footer'', ''header'', ''aside'', ''noscript'']"

definition HEADINGS :: "pystr list" where
  "HEADINGS = map lit [''h1'', ''h2'', ''h3'', ''h4'', ''h5'', ''h6'']"

text \<open>The prefix of a list item, as the source file has it: the characters U+00E2, U+20AC,
  U+00A2 and a space.\<close>

definition LI_PREFIX :: pystr where
  "LI_PREFIX = [226, 8364, 162, 32]"

fun html_element_loop :: "pystr list \<Rightarrow> soup list \<Rightarrow> pystr list" where
  "html_element_loop lines [] = lines"
| "html_element_loop lines (element # rest) =
     html_element_loop
       (case element of
          Tag name children \<Rightarrow>
            (let text = get_text_strip (lit '' '') element
             in if name \<in> set HEADINGS then
                  (if text \<noteq> [] then lines @ [[10] @ lit ''## '' @ text @ [10]] else lines)
                else if name = lit ''p'' then
                  (if text \<noteq> [] then lines @ [text] else lines)
                else if name = lit ''li'' then
                  (if text \<noteq> [] then lines @ [LI_PREFIX @ text] else lines)
                else if name = lit ''td'' \<or> name = lit ''th'' then
                  (if text \<noteq> [] then lines @ [text] else lines)
                else lines)
        | _ \<Rightarrow> lines)
       rest"

text \<open>The loop under the comment \<open># Deduplicate consecutive blank lines\<close>.\<close>

fun html_dedup_loop :: "pystr list \<Rightarrow> bool \<Rightarrow> pystr list \<Rightarrow> pystr list" where
  "html_dedup_loop result prev_blank [] = result"
| "html_dedup_loop result prev_blank (line # rest) =
     (let is_blank = (py_strip line = [])
      in if is_blank \<and> prev_blank then html_dedup_loop result prev_blank rest
         else html_dedup_loop (result @ [line]) is_blank rest)"

text \<open>\<open>soup.find("article") or soup.find("main") or soup.find("body") or soup\<close>\<close>

definition html_main :: "soup \<Rightarrow> soup" where
  "html_main sp =
     (case soup_find (lit ''article'') sp of
        Some el \<Rightarrow> el
      | None \<Rightarrow>
          (case soup_find (lit ''main'') sp of
             Some el \<Rightarrow> el
           | None \<Rightarrow> (case soup_find (lit ''body'') sp of Some el \<Rightarrow> el | None \<Rightarrow> sp)))"

text \<open>The parsing path, from the parse tree on.\<close>

definition html_soup_text :: "soup \<Rightarrow> pystr" where
  "html_soup_text parsed =
     (let sp = decompose_all NON_CONTENT parsed;
          lines = html_element_loop [] (descendants (html_main sp));
          result = html_dedup_loop [] False lines
      in py_join [10] result)"

definition html_extract :: "env \<Rightarrow> bytes \<Rightarrow> pystr \<Rightarrow> exn + result_dict" where
  "html_extract e file_bytes filename =
     (case bs4_BeautifulSoup e of
        None \<Rightarrow>
          (let text = re_sub_tags (decode_utf8_replace e file_bytes)
           in Inr \<lparr>text_key = Some (py_join (lit '' '') (py_split text)), page_count_key = Some 0,
                   metadata_key = None\<rparr>)
      | Some BeautifulSoup \<Rightarrow>
          (case BeautifulSoup (decode_utf8_replace e file_bytes) of
             Inl exc \<Rightarrow> Inl exc
           | Inr parsed \<Rightarrow>
               Inr \<lparr>text_key = Some (html_soup_text parsed), page_count_key = Some 0,
                    metadata_key = None\<rparr>))"

subsection \<open>Trees that differ only inside given elements\<close>

text \<open>The tree in which every tag with one of the names has lost all it contains.  Two
  trees with the same image differ at most in what is inside such tags.\<close>

fun emptied :: "pystr list \<Rightarrow> soup \<Rightarrow> soup" where
  "emptied names (Tag name children) =
     Tag name (map (\<lambda>c. if tag_named names c then (case c of Tag n cs \<Rightarrow> Tag n [] | other \<Rightarrow> other)
                           else emptied names c) children)"
| "emptied names (NavigableString s) = NavigableString s"
| "emptied names (Comment s) = Comment s"

section \<open>extractors/image.py\<close>

text \<open>The library calls \<open>extract\<close> makes, recorded in the order they are made.\<close>

datatype lib_call = PILImage_open_call | convert_call | image_to_string_call

definition ocr_failed :: "pystr \<Rightarrow> exn \<Rightarrow> result_dict" where
  "ocr_failed filename exc =
     \<lparr>text_key = Some (lit ''[Image] '' @ filename @ [32, 8212, 32] @ lit ''OCR failed: '' @ exn_str exc),
      page_count_key = Some 0, metadata_key = None\<rparr>"

definition image_extract :: "env \<Rightarrow> bytes \<Rightarrow> pystr \<Rightarrow> result_dict \<times> lib_call list" where
  "image_extract e file_bytes filename =
     (if \<not> OCR_AVAILABLE e then
        (\<lparr>text_key = Some (lit ''[Image] '' @ filename @ [10]
             @ lit ''OCR not available on this server (Tesseract not installed).'' @ [10]
             @ lit ''Install tesseract-ocr to enable full text extraction from images.''),
          page_count_key = Some 0, metadata_key = None\<rparr>, [])
      else
        (case PILImage_open e file_bytes of
           Inl exc \<Rightarrow> (ocr_failed filename exc, [PILImage_open_call])
         | Inr opened \<Rightarrow>
             (let needs_convert = (img_mode opened \<noteq> lit ''RGB'' \<and> img_mode opened \<noteq> lit ''L'');
                  calls = [PILImage_open_call] @ (if needs_convert then [convert_call] else [])
              in case (if needs_convert then img_convert_RGB e opened else Inr opened) of
                   Inl exc \<Rightarrow> (ocr_failed filename exc, calls)
                 | Inr img \<Rightarrow>
                     (case pytesseract_image_to_string e img of
                        Inl exc \<Rightarrow> (ocr_failed filename exc, calls @ [image_to_string_call])
                      | Inr ocr \<Rightarrow>
                          (let text = py_strip ocr
                           in if text = [] then
                                (\<lparr>text_key = Some (lit ''[Image] '' @ filename @ [10]
                                     @ lit ''No text detected by OCR.''),
                                  page_count_key = Some 0, metadata_key = None\<rparr>,
                                 calls @ [image_to_string_call])
                              else
                                (\<lparr>text_key = Some (lit ''[Image: '' @ filename @ lit '']'' @ [10, 10] @ text),
                                  page_count_key = Some 0,
                                  metadata_key = Some [(lit ''width'', MInt (img_width img)),
                                                       (lit ''height'', MInt (img_height img))]\<rparr>,
                                 calls @ [image_to_string_call]))))))"

section \<open>main.py\<close>

datatype extractor =
  pdf_extract_fn | extract_docx_fn | extract_xlsx_fn | extract_pptx_fn | notebook_extract_fn
  | html_extract_fn | image_extract_fn

text \<open>\<open>EXTRACTORS\<close>: the MIME types and their extractor functions.\<close>

definition EXTRACTORS :: "(pystr \<times> extractor) list" where
  "EXTRACTORS =
     [(lit ''application/pdf'', pdf_extract_fn),
      (lit ''application/vnd.openxmlformats-officedocument.wordprocessingml.document'', extract_docx_fn),
      (lit ''application/vnd.openxmlformats-officedocument.spreadsheetml.sheet'', extract_xlsx_fn),
      (lit ''application/vnd.openxmlformats-officedocument.presentationml.presentation'', extract_pptx_fn),
      (lit ''application/json'', notebook_extract_fn),
      (lit ''application/x-ipynb+json'', notebook_extract_fn),
      (lit ''application/vnd.google.colaboratory'', notebook_extract_fn),
      (lit ''text/html'', html_extract_fn),
      (lit ''image/jpeg'', image_extract_fn),
      (lit ''image/png'', image_extract_fn),
      (lit ''image/webp'', image_extract_fn),
      (lit ''image/gif'', image_extract_fn),
      (lit ''image/tiff'', image_extract_fn),
      (lit ''image/bmp'', image_extract_fn)]"

text \<open>\<open>extractor_fn(file_bytes, filename)\<close>\<close>

fun call_extractor :: "extractor \<Rightarrow> env \<Rightarrow> bytes \<Rightarrow> pystr \<Rightarrow> exn + result_dict" where
  "call_extractor pdf_extract_fn e file_bytes filename = pdf_extract e file_bytes filename"
| "call_extractor extract_docx_fn e file_bytes filename = office_extract_docx e file_bytes filename"
| "call_extractor extract_xlsx_fn e file_bytes filename = office_extract_xlsx e file_bytes filename"
| "call_extractor extract_pptx_fn e file_bytes filename = office_extract_pptx e file_bytes filename"
| "call_extractor notebook_extract_fn e file_bytes filename = notebook_extract e file_bytes filename"
| "call_extractor html_extract_fn e file_bytes filename = html_extract e file_bytes filename"
| "call_extractor image_extract_fn e file_bytes filename = Inr (fst (image_extract e file_bytes filename))"

text \<open>\<open>filename or "unknown"\<close>\<close>

definition filename_or_unknown :: "pystr option \<Rightarrow> pystr" where
  "filename_or_unknown filename =
     (case filename of None \<Rightarrow> lit ''unknown'' | Some f \<Rightarrow> (if f = [] then lit ''unknown'' else f))"

text \<open>The response built from the dict of the extractor: \<open>result.get("text", "").strip()\<close>,
  \<open>result.get("page_count", 0)\<close> and \<open>result.get("metadata", {})\<close>.\<close>

definition response_of_result :: "result_dict \<Rightarrow> ExtractResponse" where
  "response_of_result result =
     \<lparr>resp_text = py_strip (case text_key result of None \<Rightarrow> [] | Some t \<Rightarrow> t),
      resp_page_count = (case page_count_key result of None \<Rightarrow> 0 | Some n \<Rightarrow> n),
      resp_metadata = (case metadata_key result of None \<Rightarrow> [] | Some m \<Rightarrow> m)\<rparr>"

text \<open>The handler of \<open>POST /extract\<close>.  It returns the response or the \<open>HTTPException\<close> it
  raises, and the extractor functions it has called.\<close>

definition main_extract :: "env \<Rightarrow> pystr \<Rightarrow> bytes \<Rightarrow> pystr option
    \<Rightarrow> (http_exception + ExtractResponse) \<times> extractor list" where
  "main_extract e mime_type file_bytes filename =
     (case map_of EXTRACTORS mime_type of
        None \<Rightarrow> (Inl (HTTPException 415 (lit ''Unsupported MIME type: '' @ mime_type)), [])
      | Some extractor_fn \<Rightarrow>
          (if file_bytes = [] then (Inl (HTTPException 400 (lit ''Empty file'')), [])
           else
             (case call_extractor extractor_fn e file_bytes (filename_or_unknown filename) of
                Inl exc \<Rightarrow>
                  (Inl (HTTPException 500 (lit ''Extraction error: '' @ take 300 (exn_str exc))),
                   [extractor_fn])
              | Inr result \<Rightarrow> (Inr (response_of_result result), [extractor_fn]))))"

text \<open>\<open>class DriveExtractRequest(BaseModel)\<close>; a request without a filename has the default
  \<open>"unknown"\<close> before the handler sees it.\<close>

record DriveExtractRequest =
  req_file_id :: pystr
  req_access_token :: pystr
  req_mime_type :: pystr
  req_filename :: pystr

text \<open>The handler of \<open>POST /extract-from-drive\<close>: the same lookup, then the download, then
  the extractor on the downloaded bytes.\<close>

definition extract_from_drive :: "env \<Rightarrow> DriveExtractRequest
    \<Rightarrow> (http_exception + ExtractResponse) \<times> extractor list" where
  "extract_from_drive e req =
     (case map_of EXTRACTORS (req_mime_type req) of
        None \<Rightarrow> (Inl (HTTPException 415 (lit ''Unsupported MIME type: '' @ req_mime_type req)), [])
      | Some extractor_fn \<Rightarrow>
          (case requests_get e
                  (lit ''https://www.googleapis.com/drive/v3/files/'' @ req_file_id req @ lit ''?alt=media'')
                  (lit ''Bearer '' @ req_access_token req) of
             Inl exc \<Rightarrow>
               (Inl (HTTPException 502 (lit ''Drive download error: '' @ exn_str exc)), [])
           | Inr resp \<Rightarrow>
               (if status_code resp \<noteq> 200 then
                  (Inl (HTTPException 502
                     (lit ''Drive download failed: '' @ str_of_nat (status_code resp) @ lit '' ''
                        @ take 200 (response_text resp))), [])
                else
                  (case call_extractor extractor_fn e (response_content resp) (req_filename req) of
                     Inl exc \<Rightarrow>
                       (Inl (HTTPException 500 (lit ''Extraction error: '' @ take 300 (exn_str exc))),
                        [extractor_fn])
                   | Inr result \<Rightarrow> (Inr (response_of_result result), [extractor_fn])))))"

text \<open>The exceptions raised while an Office file is parsed, in the order they would be
  raised: the one of the call that opens it, or those of the reads of the opened document.\<close>

definition office_raised :: "extractor \<Rightarrow> env \<Rightarrow> bytes \<Rightarrow> exn list" where
  "office_raised fn e file_bytes =
     (if fn = extract_docx_fn then
        (case docx_Document e file_bytes of Inl exc \<Rightarrow> [exc] | Inr doc \<Rightarrow> docx_raised doc)
      else if fn = extract_xlsx_fn then
        (case openpyxl_load_workbook e file_bytes of Inl exc \<Rightarrow> [exc] | Inr wb \<Rightarrow> xlsx_raised wb)
      else if fn = extract_pptx_fn then
        (case pptx_Presentation e file_bytes of Inl exc \<Rightarrow> [exc] | Inr slides \<Rightarrow> pptx_raised slides)
      else [])"

section \<open>Example inputs\<close>

text \<open>A host on which no library can read its input: every parser raises, BeautifulSoup
  cannot be imported and Tesseract is not installed.  Bytes are decoded as ASCII.\<close>

definition bare_env :: env where
  "bare_env =
     \<lparr>decode_utf8_replace = lit,
      fitz_open = (\<lambda>b. Inl (Exception (lit ''Failed to open stream''))),
      docx_Document = (\<lambda>b. Inl (Exception (lit ''File is not a zip file''))),
      openpyxl_load_workbook = (\<lambda>b. Inl (Exception (lit ''File is not a zip file''))),
      pptx_Presentation = (\<lambda>b. Inl (Exception (lit ''File is not a zip file''))),
      nbformat_reads_cells = (\<lambda>s. Inl (Exception (lit ''Notebook does not appear to be JSON''))),
      json_loads = (\<lambda>s. Inl (Exception (lit ''Expecting value''))),
      bs4_BeautifulSoup = None,
      OCR_AVAILABLE = False,
      PILImage_open = (\<lambda>b. Inl (Exception (lit ''cannot identify image file''))),
      img_convert_RGB = (\<lambda>i. Inr i),
      pytesseract_image_to_string = (\<lambda>i. Inr []),
      requests_get = (\<lambda>url authorization. Inl (Exception (lit ''Connection refused'')))\<rparr>"

text \<open>A slide whose only text is blank, and a slide with one line of text in two runs.\<close>

definition blank_slide :: pptx_slide where
  "blank_slide = \<lparr>slide_shapes = [\<lparr>shape_text_frame = Some [Inr [lit ''  '']], shape_table = None\<rparr>],
                  slide_notes = Some (Inr [])\<rparr>"

definition hello_slide :: pptx_slide where
  "hello_slide = \<lparr>slide_shapes = [\<lparr>shape_text_frame = Some [Inr [lit ''Hel'', lit ''lo'']], shape_table = None\<rparr>],
                  slide_notes = None\<rparr>"

text \<open>The cells of a notebook: a markdown cell whose source starts with four spaces (an
  indented code block in markdown) and a raw cell with spaces around its text.\<close>

definition indented_cells :: "json list" where
  "indented_cells =
     [JDict [(lit ''cell_type'', JStr (lit ''markdown'')), (lit ''source'', JStr (lit ''    x = 1''))],
      JDict [(lit ''cell_type'', JStr (lit ''raw'')), (lit ''source'', JStr (lit '' r ''))]]"


text \<open>A host on which python-docx opens a document of one paragraph and then raises at the
  second paragraph.\<close>

definition docx_env :: "exn \<Rightarrow> env" where
  "docx_env exc =
     bare_env\<lparr>docx_Document := \<lambda>b. Inr
       \<lparr>docx_paragraphs = [Inr \<lparr>para_text = lit ''Intro'', para_style_name = lit ''Normal''\<rparr>, Inl exc],
        docx_tables = []\<rparr>\<rparr>"

text \<open>A host on which the download from Drive succeeds with an empty body.\<close>

definition empty_download_env :: env where
  "empty_download_env =
     bare_env\<lparr>requests_get := \<lambda>url authorization.
       Inr \<lparr>status_code = 200, response_text = [], response_content = []\<rparr>\<rparr>"

text \<open>A host with BeautifulSoup, whose parser returns the given tree.\<close>

definition html_env :: "soup \<Rightarrow> env" where
  "html_env parsed = bare_env\<lparr>bs4_BeautifulSoup := Some (\<lambda>s. Inr parsed)\<rparr>"

text \<open>The tree the lxml parser builds for \<open><script>alert(1)</script><p>Hello</p>\<close>: the
  script goes to the head, the paragraph to the body.\<close>

definition script_then_p :: soup where
  "script_then_p =
     Tag (lit ''[document]'')
       [Tag (lit ''html'')
          [Tag (lit ''head'') [Tag (lit ''script'') [NavigableString (lit ''alert(1)'')]],
           Tag (lit ''body'') [Tag (lit ''p'') [NavigableString (lit ''Hello'')]]]]"

text \<open>The tree for \<open><h1>A</h1><h2>B</h2>\<close>.\<close>

definition two_headings :: soup where
  "two_headings =
     Tag (lit ''[document]'')
       [Tag (lit ''html'')
          [Tag (lit ''body'')
             [Tag (lit ''h1'') [NavigableString (lit ''A'')],
              Tag (lit ''h2'') [NavigableString (lit ''B'')]]]]"

section \<open>Strings\<close>

lemma length_lit [simp]: "length (lit s) = length s"
  by (simp add: lit_def)

lemma last_dropWhile_eq: "dropWhile P xs \<noteq> [] \<Longrightarrow> last (dropWhile P xs) = last xs"
  by (induction xs) (auto split: if_splits)

text \<open>A stripped string neither starts nor ends with whitespace.\<close>

lemma py_strip_ends:
  "py_strip s = [] \<or> (\<not> py_isspace (hd (py_strip s)) \<and> \<not> py_isspace (last (py_strip s)))"
proof (cases "py_strip s = []")
  case True
  then show ?thesis by simp
next
  case False
  define t where "t = dropWhile py_isspace s"
  define u where "u = dropWhile py_isspace (rev t)"
  have su: "py_strip s = rev u" by (simp add: py_strip_def t_def u_def)
  with False have u: "u \<noteq> []" by simp
  then have t: "t \<noteq> []" by (auto simp: u_def)
  have "\<not> py_isspace (hd u)" using u unfolding u_def by (rule hd_dropWhile)
  then have l: "\<not> py_isspace (last (py_strip s))" using u by (simp add: su last_rev)
  have "last u = last (rev t)" using u unfolding u_def by (rule last_dropWhile_eq)
  then have "hd (py_strip s) = hd t" using u t by (simp add: su hd_rev last_rev)
  moreover have "\<not> py_isspace (hd t)" using t unfolding t_def by (rule hd_dropWhile)
  ultimately show ?thesis using l by simp
qed











section \<open>The registry\<close>

lemma docx_key:
  "map_of EXTRACTORS (lit ''application/vnd.openxmlformats-officedocument.wordprocessingml.document'')
     = Some extract_docx_fn"
  by (simp add: EXTRACTORS_def lit_def)

lemma pdf_key: "map_of EXTRACTORS (lit ''application/pdf'') = Some pdf_extract_fn"
  by (simp add: EXTRACTORS_def lit_def)

lemma html_key: "map_of EXTRACTORS (lit ''text/html'') = Some html_extract_fn"
  by (simp add: EXTRACTORS_def lit_def)

section \<open>Exceptions propagate through the loops\<close>

lemma raises_first_Inr [simp]: "raises_first (Inr v) excs \<longleftrightarrow> excs = []"
  by (simp add: raises_first_def)

lemma raises_first_Inl [simp]: "raises_first (Inl exc) excs \<longleftrightarrow> excs \<noteq> [] \<and> exc = hd excs"
  by (simp add: raises_first_def)

text \<open>Two steps in sequence: the second runs only when the first returns.\<close>

lemma raises_first_bind:
  assumes "raises_first first xs"
    and "\<And>v. first = Inr v \<Longrightarrow> raises_first (next_step v) ys"
  shows "raises_first (case first of Inl exc \<Rightarrow> Inl exc | Inr v \<Rightarrow> next_step v) (xs @ ys)"
proof (cases first)
  case (Inl exc)
  with assms(1) show ?thesis by simp
next
  case (Inr v)
  with assms(1) have "xs = []" by simp
  with Inr assms(2) show ?thesis by simp
qed

lemma exns_Nil [simp]: "exns [] = []"
  by (simp add: exns_def)

lemma exns_Inl [simp]: "exns (Inl exc # rest) = exc # exns rest"
  by (simp add: exns_def)

lemma exns_Inr [simp]: "exns (Inr v # rest) = exns rest"
  by (simp add: exns_def)


lemma docx_para_loop_raises: "raises_first (docx_para_loop acc paras) (exns paras)"
  by (induction acc paras rule: docx_para_loop.induct) (simp_all add: Let_def)

lemma table_row_loop_raises: "raises_first (table_row_loop acc rows) (exns rows)"
  by (induction acc rows rule: table_row_loop.induct) (simp_all add: Let_def)

lemma xlsx_row_loop_raises: "raises_first (xlsx_row_loop acc rows) (exns rows)"
  by (induction acc rows rule: xlsx_row_loop.induct) (simp_all add: Let_def)

lemma pptx_para_loop_raises: "raises_first (pptx_para_loop acc paras) (exns paras)"
  by (induction acc paras rule: pptx_para_loop.induct) (simp_all add: Let_def)

lemma docx_table_loop_raises:
  "raises_first (docx_table_loop acc tables) (concat (map exns tables))"
proof (induction tables arbitrary: acc)
  case Nil
  then show ?case by simp
next
  case (Cons table tables)
  have "raises_first
      (case table_row_loop [] table of
         Inl exc \<Rightarrow> Inl exc
       | Inr rows \<Rightarrow>
           docx_table_loop (if rows \<noteq> [] then acc @ [[10] @ py_join [10] rows @ [10]] else acc) tables)
      (exns table @ concat (map exns tables))"
    by (rule raises_first_bind) (simp_all add: table_row_loop_raises Cons.IH)
  then show ?case by simp
qed

lemma xlsx_sheet_loop_raises:
  "raises_first (xlsx_sheet_loop acc sheets) (sheets_raised sheets)"
proof (induction sheets arbitrary: acc)
  case Nil
  then show ?case by (simp add: sheets_raised_def)
next
  case (Cons ws sheets)
  have "raises_first
      (case xlsx_row_loop (acc @ [[10] @ lit ''# Sheet: '' @ sheet_name ws @ [10]]) (sheet_rows ws) of
         Inl exc \<Rightarrow> Inl exc
       | Inr with_rows \<Rightarrow> xlsx_sheet_loop with_rows sheets)
      (exns (sheet_rows ws) @ sheets_raised sheets)"
    by (rule raises_first_bind) (simp_all add: xlsx_row_loop_raises Cons.IH)
  then show ?case by (simp add: sheets_raised_def)
qed

lemma pptx_shape_loop_raises:
  "raises_first (pptx_shape_loop acc shapes) (concat (map shape_raised shapes))"
proof (induction shapes arbitrary: acc)
  case Nil
  then show ?case by simp
next
  case (Cons shape shapes)
  let ?text = "case shape_text_frame shape of
                 None \<Rightarrow> Inr acc | Some paragraphs \<Rightarrow> pptx_para_loop acc paragraphs"
  let ?text_excs = "case shape_text_frame shape of None \<Rightarrow> [] | Some paragraphs \<Rightarrow> exns paragraphs"
  let ?table_excs = "case shape_table shape of None \<Rightarrow> [] | Some rows \<Rightarrow> exns rows"
  have frame: "raises_first ?text ?text_excs"
    by (cases "shape_text_frame shape") (simp_all add: pptx_para_loop_raises)
  have tbl: "raises_first
      (case shape_table shape of None \<Rightarrow> Inr with_text | Some rows \<Rightarrow> table_row_loop with_text rows)
      ?table_excs" for with_text
    by (cases "shape_table shape") (simp_all add: table_row_loop_raises)
  have inner: "raises_first
      (case (case shape_table shape of
               None \<Rightarrow> Inr with_text | Some rows \<Rightarrow> table_row_loop with_text rows) of
         Inl exc \<Rightarrow> Inl exc
       | Inr with_table \<Rightarrow> pptx_shape_loop with_table shapes)
      (?table_excs @ concat (map shape_raised shapes))" for with_text
    by (rule raises_first_bind) (simp_all add: tbl Cons.IH)
  have "raises_first
      (case ?text of
         Inl exc \<Rightarrow> Inl exc
       | Inr with_text \<Rightarrow>
           (case (case shape_table shape of
                    None \<Rightarrow> Inr with_text | Some rows \<Rightarrow> table_row_loop with_text rows) of
              Inl exc \<Rightarrow> Inl exc
            | Inr with_table \<Rightarrow> pptx_shape_loop with_table shapes))
      (?text_excs @ (?table_excs @ concat (map shape_raised shapes)))"
    by (rule raises_first_bind) (simp_all add: frame inner)
  then show ?case by (simp add: shape_raised_def [of shape])
qed

lemma pptx_slide_parts_raises: "raises_first (pptx_slide_parts n slide) (slide_raised slide)"
proof -
  let ?notes_excs = "case slide_notes slide of Some (Inl exc) \<Rightarrow> [exc] | _ \<Rightarrow> []"
  have notes_step: "raises_first
      (case slide_notes slide of
         None \<Rightarrow> Inr slide_parts
       | Some (Inl exc) \<Rightarrow> Inl exc
       | Some (Inr notes) \<Rightarrow>
           (let notes_text = py_strip notes
            in if notes_text \<noteq> [] then Inr (slide_parts @ [lit ''[Notes] '' @ notes_text])
               else Inr slide_parts))
      ?notes_excs" for slide_parts
    by (simp add: Let_def split: option.splits sum.splits)
  have "raises_first
      (case pptx_shape_loop [slide_header n] (slide_shapes slide) of
         Inl exc \<Rightarrow> Inl exc
       | Inr slide_parts \<Rightarrow>
           (case slide_notes slide of
              None \<Rightarrow> Inr slide_parts
            | Some (Inl exc) \<Rightarrow> Inl exc
            | Some (Inr notes) \<Rightarrow>
                (let notes_text = py_strip notes
                 in if notes_text \<noteq> [] then Inr (slide_parts @ [lit ''[Notes] '' @ notes_text])
                    else Inr slide_parts)))
      (concat (map shape_raised (slide_shapes slide)) @ ?notes_excs)"
    by (rule raises_first_bind) (simp_all add: pptx_shape_loop_raises notes_step)
  then show ?thesis by (simp add: pptx_slide_parts_def slide_raised_def)
qed

lemma pptx_slide_loop_raises:
  "raises_first (pptx_slide_loop acc n slides) (pptx_raised slides)"
proof (induction slides arbitrary: acc n)
  case Nil
  then show ?case by (simp add: pptx_raised_def)
next
  case (Cons slide slides)
  have "raises_first
      (case pptx_slide_parts n slide of
         Inl exc \<Rightarrow> Inl exc
       | Inr slide_parts \<Rightarrow>
           pptx_slide_loop (if length slide_parts > 1 then acc @ slide_parts else acc) (Suc n) slides)
      (slide_raised slide @ pptx_raised slides)"
    by (rule raises_first_bind) (simp_all add: pptx_slide_parts_raises Cons.IH)
  then show ?case by (simp add: pptx_raised_def)
qed

lemma office_raises_first:
  assumes "fn \<in> {extract_docx_fn, extract_xlsx_fn, extract_pptx_fn}"
  shows "raises_first (call_extractor fn e file_bytes name) (office_raised fn e file_bytes)"
proof -
  have docx: "raises_first (office_extract_docx e file_bytes name) (office_raised extract_docx_fn e file_bytes)"
  proof (cases "docx_Document e file_bytes")
    case (Inl exc)
    then show ?thesis by (simp add: office_extract_docx_def office_raised_def)
  next
    case (Inr doc)
    have "raises_first
        (case docx_para_loop [] (docx_paragraphs doc) of
           Inl exc \<Rightarrow> Inl exc
         | Inr paragraph_parts \<Rightarrow>
             (case docx_table_loop paragraph_parts (docx_tables doc) of
                Inl exc \<Rightarrow> Inl exc
              | Inr parts \<Rightarrow>
                  Inr \<lparr>text_key = Some (py_join [10] parts), page_count_key = Some 0,
                       metadata_key = None\<rparr>))
        (exns (docx_paragraphs doc) @ (concat (map exns (docx_tables doc)) @ []))"
      by (intro raises_first_bind) (simp_all add: docx_para_loop_raises docx_table_loop_raises)
    with Inr show ?thesis by (simp add: office_extract_docx_def office_raised_def docx_raised_def)
  qed
  have xlsx: "raises_first (office_extract_xlsx e file_bytes name) (office_raised extract_xlsx_fn e file_bytes)"
  proof (cases "openpyxl_load_workbook e file_bytes")
    case (Inl exc)
    then show ?thesis by (simp add: office_extract_xlsx_def office_raised_def)
  next
    case (Inr wb)
    have "raises_first
        (case xlsx_sheet_loop [] (wb_sheets wb) of
           Inl exc \<Rightarrow> Inl exc
         | Inr parts \<Rightarrow>
             (case wb_close wb of
                Some exc \<Rightarrow> Inl exc
              | None \<Rightarrow>
                  Inr \<lparr>text_key = Some (py_join [10] parts), page_count_key = Some 0,
                       metadata_key = None\<rparr>))
        (sheets_raised (wb_sheets wb) @ (case wb_close wb of None \<Rightarrow> [] | Some exc \<Rightarrow> [exc]))"
      by (intro raises_first_bind) (simp_all add: xlsx_sheet_loop_raises split: option.splits)
    with Inr show ?thesis by (simp add: office_extract_xlsx_def office_raised_def xlsx_raised_def)
  qed
  have pptx: "raises_first (office_extract_pptx e file_bytes name) (office_raised extract_pptx_fn e file_bytes)"
  proof (cases "pptx_Presentation e file_bytes")
    case (Inl exc)
    then show ?thesis by (simp add: office_extract_pptx_def office_raised_def)
  next
    case (Inr slides)
    have "raises_first
        (case pptx_slide_loop [] 1 slides of
           Inl exc \<Rightarrow> Inl exc
         | Inr parts \<Rightarrow>
             Inr \<lparr>text_key = Some (py_join [10] parts),
                  page_count_key = Some (int (length slides)), metadata_key = None\<rparr>)
        (pptx_raised slides @ [])"
      by (intro raises_first_bind) (simp_all add: pptx_slide_loop_raises)
    with Inr show ?thesis by (simp add: office_extract_pptx_def office_raised_def)
  qed
  from assms docx xlsx pptx show ?thesis by auto
qed

section \<open>The two handlers and the empty buffer\<close>

text \<open>The handler of \<open>POST /extract\<close> rejects an unsupported MIME type and an empty buffer
  before it calls an extractor.\<close>

lemma upload_rejects:
  "(map_of EXTRACTORS mime_type = None \<longrightarrow>
      main_extract e mime_type file_bytes filename =
        (Inl (HTTPException 415 (lit ''Unsupported MIME type: '' @ mime_type)), []))
   \<and> (map_of EXTRACTORS mime_type \<noteq> None \<longrightarrow>
      main_extract e mime_type [] filename = (Inl (HTTPException 400 (lit ''Empty file'')), []))"
  by (auto simp: main_extract_def)

text \<open>The handler of \<open>POST /extract-from-drive\<close> rejects an unsupported MIME type in the
  same way; once the download has succeeded it calls the extractor, whatever was
  downloaded.\<close>

lemma drive_rejects_unsupported:
  "map_of EXTRACTORS (req_mime_type req) = None \<Longrightarrow>
     extract_from_drive e req =
       (Inl (HTTPException 415 (lit ''Unsupported MIME type: '' @ req_mime_type req)), [])"
  by (simp add: extract_from_drive_def)

lemma drive_calls_extractor:
  assumes "map_of EXTRACTORS (req_mime_type req) = Some fn"
    and "requests_get e
           (lit ''https://www.googleapis.com/drive/v3/files/'' @ req_file_id req @ lit ''?alt=media'')
           (lit ''Bearer '' @ req_access_token req) = Inr resp"
    and "status_code resp = 200"
  shows "snd (extract_from_drive e req) = [fn]"
  using assms by (simp add: extract_from_drive_def split: sum.splits)

text \<open>
  C1.  The handler of \<open>POST /extract-from-drive\<close> has no test of the downloaded bytes.  For
  the supported MIME type \<open>application/pdf\<close> and a download that succeeds with an empty body,
  the PDF extractor is called on the empty buffer and the handler answers with a response,
  whose text is the error text of the extractor; for the same MIME type and the same empty
  buffer the handler of \<open>POST /extract\<close> answers with status 400 (EmptyInput) and calls no
  extractor.
\<close>

theorem drive_empty_download:
  "extract_from_drive empty_download_env
       \<lparr>req_file_id = lit ''f1'', req_access_token = lit ''t1'',
        req_mime_type = lit ''application/pdf'', req_filename = lit ''a.pdf''\<rparr>
     = (Inr \<lparr>resp_text = lit ''[PDF Error] Could not open a.pdf: Failed to open stream'',
             resp_page_count = 0, resp_metadata = []\<rparr>, [pdf_extract_fn])
   \<and> main_extract empty_download_env (lit ''application/pdf'') [] (Some (lit ''a.pdf''))
     = (Inl (HTTPException 400 (lit ''Empty file'')), [])"
proof -
  have s: "py_strip (lit ''[PDF Error] Could not open '' @ lit ''a.pdf'' @ lit '': ''
                @ lit ''Failed to open stream'')
     = lit ''[PDF Error] Could not open a.pdf: Failed to open stream''"
    by (simp add: py_strip_def lit_def py_isspace_def)
  have "call_extractor pdf_extract_fn empty_download_env [] (lit ''a.pdf'')
      = Inr \<lparr>text_key = Some (lit ''[PDF Error] Could not open '' @ lit ''a.pdf'' @ lit '': ''
                @ lit ''Failed to open stream''),
            page_count_key = Some 0, metadata_key = None\<rparr>"
    by (simp add: pdf_extract_def empty_download_env_def bare_env_def)
  then have "extract_from_drive empty_download_env
       \<lparr>req_file_id = lit ''f1'', req_access_token = lit ''t1'',
        req_mime_type = lit ''application/pdf'', req_filename = lit ''a.pdf''\<rparr>
     = (Inr \<lparr>resp_text = lit ''[PDF Error] Could not open a.pdf: Failed to open stream'',
             resp_page_count = 0, resp_metadata = []\<rparr>, [pdf_extract_fn])"
    by (simp add: extract_from_drive_def pdf_key empty_download_env_def response_of_result_def s)
  moreover have "main_extract empty_download_env (lit ''application/pdf'') [] (Some (lit ''a.pdf''))
     = (Inl (HTTPException 400 (lit ''Empty file'')), [])"
    by (simp add: main_extract_def pdf_key)
  ultimately show ?thesis by simp
qed

section \<open>Failures of the Office extractors\<close>

text \<open>
  C2, as amended.  An exception raised while a DOCX, XLSX or PPTX file is parsed, by the call
  that opens the file, by any later read of a paragraph, of a row, of a text frame or of
  the notes, or by closing the workbook, is raised by the extractor (nothing in
  \<open>office.py\<close> catches it): the outcome of the extractor is the first exception of these
  reads, in the order of the code, and the extractor returns only when there is none.  Both handlers answer an exception of the
  extractor with status 500 (ExtractionFailed) and no response body.  The detail is the
  label \<open>Extraction error: \<close> followed by the first 300 characters of \<open>str(exc)\<close>: the
  exception text is cut to at most 300 characters, the whole detail to at most 318.
\<close>

theorem office_failure:
  assumes key: "map_of EXTRACTORS mime_type = Some fn"
    and office: "fn \<in> {extract_docx_fn, extract_xlsx_fn, extract_pptx_fn}"
    and nonempty: "file_bytes \<noteq> []"
  shows "raises_first (call_extractor fn e file_bytes (filename_or_unknown filename))
           (office_raised fn e file_bytes)
     \<and> (office_raised fn e file_bytes \<noteq> [] \<longrightarrow>
           call_extractor fn e file_bytes (filename_or_unknown filename)
             = Inl (hd (office_raised fn e file_bytes)))
     \<and> (\<forall>exc. call_extractor fn e file_bytes (filename_or_unknown filename) = Inl exc \<longrightarrow>
           main_extract e mime_type file_bytes filename =
             (Inl (HTTPException 500 (lit ''Extraction error: '' @ take 300 (exn_str exc))), [fn])
           \<and> length (take 300 (exn_str exc)) \<le> 300
           \<and> length (lit ''Extraction error: '' @ take 300 (exn_str exc)) \<le> 318)
     \<and> (\<forall>req resp exc.
           req_mime_type req = mime_type
           \<and> requests_get e
                (lit ''https://www.googleapis.com/drive/v3/files/'' @ req_file_id req @ lit ''?alt=media'')
                (lit ''Bearer '' @ req_access_token req) = Inr resp
           \<and> status_code resp = 200
           \<and> call_extractor fn e (response_content resp) (req_filename req) = Inl exc \<longrightarrow>
           extract_from_drive e req =
             (Inl (HTTPException 500 (lit ''Extraction error: '' @ take 300 (exn_str exc))), [fn]))"
proof -
  let ?out = "call_extractor fn e file_bytes (filename_or_unknown filename)"
  have a: "raises_first ?out (office_raised fn e file_bytes)"
    using office by (rule office_raises_first)
  have b: "office_raised fn e file_bytes \<noteq> [] \<longrightarrow> ?out = Inl (hd (office_raised fn e file_bytes))"
    using a by (cases ?out) simp_all
  have c: "main_extract e mime_type file_bytes filename =
             (Inl (HTTPException 500 (lit ''Extraction error: '' @ take 300 (exn_str exc))), [fn])
           \<and> length (take 300 (exn_str exc)) \<le> 300
           \<and> length (lit ''Extraction error: '' @ take 300 (exn_str exc)) \<le> 318"
    if "?out = Inl exc" for exc
    using key nonempty that by (simp add: main_extract_def)
  have d: "extract_from_drive e req =
             (Inl (HTTPException 500 (lit ''Extraction error: '' @ take 300 (exn_str exc))), [fn])"
    if "req_mime_type req = mime_type"
      and "requests_get e
                (lit ''https://www.googleapis.com/drive/v3/files/'' @ req_file_id req @ lit ''?alt=media'')
                (lit ''Bearer '' @ req_access_token req) = Inr resp"
      and "status_code resp = 200"
      and "call_extractor fn e (response_content resp) (req_filename req) = Inl exc"
    for req resp exc
    using key that by (simp add: extract_from_drive_def)
  show ?thesis using a b c d by blast
qed

lemma docx_env_raised:
  "office_raised extract_docx_fn (docx_env exc) file_bytes = [exc]"
  by (simp add: office_raised_def docx_env_def docx_raised_def)

theorem office_failure_witness:
  "office_raised extract_docx_fn (docx_env (Exception (lit ''no style''))) ''PK''
     = [Exception (lit ''no style'')]
   \<and> main_extract (docx_env (Exception (lit ''no style'')))
      (lit ''application/vnd.openxmlformats-officedocument.wordprocessingml.document'') ''PK'' None
     = (Inl (HTTPException 500 (lit ''Extraction error: no style'')), [extract_docx_fn])"
proof -
  have t: "lit ''Extraction error: '' @ lit ''no style'' = lit ''Extraction error: no style''"
    by (simp add: lit_def)
  have "''PK'' \<noteq> []" by simp
  from office_failure [OF docx_key _ this, of "docx_env (Exception (lit ''no style''))" None]
  show ?thesis by (simp add: docx_env_raised t)
qed

text \<open>A DOCX file whose second paragraph raises with a message of 400 characters: the
  detail of the answer has 318 characters, more than 300.\<close>

theorem office_failure_counterexample:
  "main_extract (docx_env (Exception (replicate 400 120)))
      (lit ''application/vnd.openxmlformats-officedocument.wordprocessingml.document'') ''PK'' None
     = (Inl (HTTPException 500 (lit ''Extraction error: '' @ replicate 300 120)), [extract_docx_fn])
   \<and> length (lit ''Extraction error: '' @ replicate 300 120) = 318
   \<and> \<not> length (lit ''Extraction error: '' @ replicate 300 120) \<le> 300"
proof -
  have "call_extractor extract_docx_fn (docx_env (Exception (replicate 400 120))) ''PK''
          (filename_or_unknown None) = Inl (Exception (replicate 400 120))"
    using office_raises_first [of extract_docx_fn "docx_env (Exception (replicate 400 120))" "''PK''"
        "filename_or_unknown None"]
    by (cases "call_extractor extract_docx_fn (docx_env (Exception (replicate 400 120))) ''PK''
          (filename_or_unknown None)") (simp_all add: docx_env_raised)
  then show ?thesis by (simp add: main_extract_def docx_key)
qed

section \<open>A PDF that cannot be opened\<close>

text \<open>
  C4.  When \<open>fitz.open\<close> raises, the PDF extractor does not raise: it returns the text
  \<open>[PDF Error] Could not open <filename>: <cause>\<close> with page count 0.
\<close>

theorem pdf_open_failure:
  "fitz_open e file_bytes = Inl exc \<Longrightarrow>
     pdf_extract e file_bytes filename =
       Inr \<lparr>text_key = Some (lit ''[PDF Error] Could not open '' @ filename @ lit '': '' @ exn_str exc),
            page_count_key = Some 0, metadata_key = None\<rparr>"
  by (simp add: pdf_extract_def)

theorem pdf_open_failure_witness:
  "pdf_extract bare_env ''not a pdf'' (lit ''a.pdf'') =
       Inr \<lparr>text_key = Some (lit ''[PDF Error] Could not open a.pdf: Failed to open stream''),
            page_count_key = Some 0, metadata_key = None\<rparr>"
  using pdf_open_failure [of bare_env "''not a pdf''" "Exception (lit ''Failed to open stream'')" "lit ''a.pdf''"]
  by (simp add: bare_env_def lit_def)

section \<open>Images without OCR\<close>

text \<open>
  C8.  When \<open>OCR_AVAILABLE\<close> is false, the image extractor returns the fixed text that names
  the file and says that Tesseract is not installed, with page count 0, and it makes no
  library call: \<open>PILImage.open\<close> is not called, and the result is the same whatever
  that function would do.
\<close>

theorem image_without_ocr:
  "\<not> OCR_AVAILABLE e \<Longrightarrow>
     image_extract e file_bytes filename =
       (\<lparr>text_key = Some (lit ''[Image] '' @ filename @ [10]
             @ lit ''OCR not available on this server (Tesseract not installed).'' @ [10]
             @ lit ''Install tesseract-ocr to enable full text extraction from images.''),
         page_count_key = Some 0, metadata_key = None\<rparr>, [])
     \<and> image_extract (e\<lparr>PILImage_open := any_open\<rparr>) file_bytes filename
         = image_extract e file_bytes filename"
  by (simp add: image_extract_def)

theorem image_without_ocr_witness:
  "\<not> OCR_AVAILABLE bare_env
   \<and> snd (image_extract bare_env ''GIF89a'' (lit ''a.gif'')) = []
   \<and> page_count_key (fst (image_extract bare_env ''GIF89a'' (lit ''a.gif''))) = Some 0"
  using image_without_ocr [of bare_env "''GIF89a''" "lit ''a.gif''"]
  by (simp add: bare_env_def)

section \<open>The response built from a result\<close>

lemma office_notebook_html_no_metadata:
  assumes "fn \<in> {extract_docx_fn, extract_xlsx_fn, extract_pptx_fn, notebook_extract_fn, html_extract_fn}"
    and "call_extractor fn e file_bytes name = Inr result"
  shows "metadata_key result = None"
  using assms
  by (auto simp: office_extract_docx_def office_extract_xlsx_def office_extract_pptx_def
      notebook_extract_def html_extract_def Let_def
      split: sum.splits option.splits)

text \<open>
  C10.  The response built from a result dict has an empty metadata mapping when the dict
  has no \<open>metadata\<close> key and page count 0 when it has no \<open>page_count\<close> key, and its text is
  the stripped text of the dict, which neither starts nor ends with whitespace.  For a
  supported MIME type and a non-empty input whose extractor returns, this response is what
  the handler returns; the results of the DOCX, XLSX, PPTX, notebook and HTML extractors,
  and of the PDF extractor when the file cannot be opened, have no \<open>metadata\<close> key.
\<close>

theorem response_defaults:
  "(metadata_key result = None \<longrightarrow> resp_metadata (response_of_result result) = [])
   \<and> (page_count_key result = None \<longrightarrow> resp_page_count (response_of_result result) = 0)
   \<and> resp_text (response_of_result result) = py_strip (case text_key result of None \<Rightarrow> [] | Some t \<Rightarrow> t)
   \<and> (resp_text (response_of_result result) = []
        \<or> (\<not> py_isspace (hd (resp_text (response_of_result result)))
            \<and> \<not> py_isspace (last (resp_text (response_of_result result)))))
   \<and> (map_of EXTRACTORS mime_type = Some fn \<and> file_bytes \<noteq> []
        \<and> call_extractor fn e file_bytes (filename_or_unknown filename) = Inr result \<longrightarrow>
        main_extract e mime_type file_bytes filename = (Inr (response_of_result result), [fn])
        \<and> (fn \<in> {extract_docx_fn, extract_xlsx_fn, extract_pptx_fn, notebook_extract_fn, html_extract_fn}
              \<longrightarrow> metadata_key result = None)
        \<and> (fn = pdf_extract_fn \<and> (\<exists>exc. fitz_open e file_bytes = Inl exc) \<longrightarrow> metadata_key result = None))"
proof -
  have a: "resp_text (response_of_result result) = py_strip (case text_key result of None \<Rightarrow> [] | Some t \<Rightarrow> t)"
    by (simp add: response_of_result_def)
  have b: "resp_text (response_of_result result) = []
        \<or> (\<not> py_isspace (hd (resp_text (response_of_result result)))
            \<and> \<not> py_isspace (last (resp_text (response_of_result result))))"
    unfolding a by (rule py_strip_ends)
  have c: "metadata_key result = None \<longrightarrow> resp_metadata (response_of_result result) = []"
    by (simp add: response_of_result_def)
  have d: "page_count_key result = None \<longrightarrow> resp_page_count (response_of_result result) = 0"
    by (simp add: response_of_result_def)
  have f: "map_of EXTRACTORS mime_type = Some fn \<and> file_bytes \<noteq> []
        \<and> call_extractor fn e file_bytes (filename_or_unknown filename) = Inr result \<longrightarrow>
        main_extract e mime_type file_bytes filename = (Inr (response_of_result result), [fn])"
    by (simp add: main_extract_def)
  have g: "call_extractor fn e file_bytes (filename_or_unknown filename) = Inr result \<longrightarrow>
     fn \<in> {extract_docx_fn, extract_xlsx_fn, extract_pptx_fn, notebook_extract_fn, html_extract_fn}
              \<longrightarrow> metadata_key result = None"
    using office_notebook_html_no_metadata by blast
  have h: "call_extractor fn e file_bytes (filename_or_unknown filename) = Inr result \<longrightarrow>
     fn = pdf_extract_fn \<and> (\<exists>exc. fitz_open e file_bytes = Inl exc) \<longrightarrow> metadata_key result = None"
    by (auto simp: pdf_extract_def)
  show ?thesis using a b c d f g h by blast
qed

theorem response_defaults_witness:
  "response_of_result \<lparr>text_key = Some (lit '' hi ''), page_count_key = None, metadata_key = None\<rparr>
     = \<lparr>resp_text = lit ''hi'', resp_page_count = 0, resp_metadata = []\<rparr>
   \<and> main_extract bare_env (lit ''application/pdf'') ''not a pdf'' (Some (lit ''a.pdf''))
     = (Inr \<lparr>resp_text = lit ''[PDF Error] Could not open a.pdf: Failed to open stream'',
             resp_page_count = 0, resp_metadata = []\<rparr>, [pdf_extract_fn])"
proof -
  let ?r = "\<lparr>text_key = Some (lit '' hi ''), page_count_key = None, metadata_key = None\<rparr>"
  let ?p = "\<lparr>text_key = Some (lit ''[PDF Error] Could not open '' @ lit ''a.pdf'' @ lit '': ''
                @ lit ''Failed to open stream''),
            page_count_key = Some 0, metadata_key = None\<rparr>"
  have s1: "py_strip (lit '' hi '') = lit ''hi''"
    by (simp add: py_strip_def lit_def py_isspace_def)
  have s2: "py_strip (lit ''[PDF Error] Could not open '' @ lit ''a.pdf'' @ lit '': ''
                @ lit ''Failed to open stream'')
     = lit ''[PDF Error] Could not open a.pdf: Failed to open stream''"
    by (simp add: py_strip_def lit_def py_isspace_def)
  have c: "call_extractor pdf_extract_fn bare_env ''not a pdf''
             (filename_or_unknown (Some (lit ''a.pdf''))) = Inr ?p"
    by (simp add: pdf_extract_def bare_env_def filename_or_unknown_def lit_def)
  have "response_of_result ?r = \<lparr>resp_text = lit ''hi'', resp_page_count = 0, resp_metadata = []\<rparr>"
    using response_defaults [of ?r "lit ''application/pdf''" pdf_extract_fn "''not a pdf''" bare_env
        "Some (lit ''a.pdf'')"]
    by (simp add: response_of_result_def s1)
  moreover have "main_extract bare_env (lit ''application/pdf'') ''not a pdf'' (Some (lit ''a.pdf''))
     = (Inr \<lparr>resp_text = lit ''[PDF Error] Could not open a.pdf: Failed to open stream'',
             resp_page_count = 0, resp_metadata = []\<rparr>, [pdf_extract_fn])"
    using response_defaults [of ?p "lit ''application/pdf''" pdf_extract_fn "''not a pdf''" bare_env
        "Some (lit ''a.pdf'')"] c
    by (simp add: pdf_key response_of_result_def s2)
  ultimately show ?thesis by simp
qed

section \<open>Slides\<close>

text \<open>The loops of \<open>extract_pptx\<close> only append to the list they are given.\<close>

lemma table_row_loop_extends: "table_row_loop acc rows = Inr out \<Longrightarrow> \<exists>ys. out = acc @ ys"
proof (induction rows arbitrary: acc)
  case Nil
  then show ?case by simp
next
  case (Cons row rest)
  show ?case
  proof (cases row)
    case (Inl exc)
    with Cons.prems show ?thesis by simp
  next
    case (Inr cells)
    define row_text where "row_text = py_join (lit '' | '') (map py_strip cells)"
    show ?thesis
    proof (cases "py_strip row_text = []")
      case True
      with Cons.prems Inr have "table_row_loop acc rest = Inr out"
        by (simp add: Let_def row_text_def)
      then show ?thesis by (rule Cons.IH)
    next
      case False
      with Cons.prems Inr have "table_row_loop (acc @ [row_text]) rest = Inr out"
        by (simp add: Let_def row_text_def)
      then obtain ys where "out = (acc @ [row_text]) @ ys" using Cons.IH by blast
      then have "out = acc @ (row_text # ys)" by simp
      then show ?thesis by blast
    qed
  qed
qed

lemma pptx_para_loop_extends: "pptx_para_loop acc paras = Inr out \<Longrightarrow> \<exists>ys. out = acc @ ys"
proof (induction paras arbitrary: acc)
  case Nil
  then show ?case by simp
next
  case (Cons para rest)
  show ?case
  proof (cases para)
    case (Inl exc)
    with Cons.prems show ?thesis by simp
  next
    case (Inr runs)
    show ?thesis
    proof (cases "py_strip (concat runs) = []")
      case True
      with Cons.prems Inr have "pptx_para_loop acc rest = Inr out"
        by (simp add: Let_def)
      then show ?thesis by (rule Cons.IH)
    next
      case False
      with Cons.prems Inr have "pptx_para_loop (acc @ [py_strip (concat runs)]) rest = Inr out"
        by (simp add: Let_def)
      then obtain ys where "out = (acc @ [py_strip (concat runs)]) @ ys" using Cons.IH by blast
      then have "out = acc @ (py_strip (concat runs) # ys)" by simp
      then show ?thesis by blast
    qed
  qed
qed

lemma pptx_shape_loop_extends: "pptx_shape_loop acc shapes = Inr out \<Longrightarrow> \<exists>ys. out = acc @ ys"
proof (induction shapes arbitrary: acc)
  case Nil
  then show ?case by simp
next
  case (Cons shape shapes)
  from Cons.prems obtain with_text with_table where
    t: "(case shape_text_frame shape of
           None \<Rightarrow> Inr acc | Some paragraphs \<Rightarrow> pptx_para_loop acc paragraphs) = Inr with_text"
    and b: "(case shape_table shape of
           None \<Rightarrow> Inr with_text | Some rows \<Rightarrow> table_row_loop with_text rows) = Inr with_table"
    and r: "pptx_shape_loop with_table shapes = Inr out"
    by (auto split: sum.splits)
  from t obtain xs where xs: "with_text = acc @ xs"
    using pptx_para_loop_extends [of acc] by (cases "shape_text_frame shape") auto
  from b obtain ys where ys: "with_table = with_text @ ys"
    using table_row_loop_extends [of with_text] by (cases "shape_table shape") auto
  from r obtain zs where "out = with_table @ zs" using Cons.IH by blast
  then have "out = acc @ (xs @ ys @ zs)" by (simp add: xs ys)
  then show ?case by blast
qed

lemma pptx_slide_parts_header:
  "pptx_slide_parts n slide = Inr slide_parts \<Longrightarrow> \<exists>content. slide_parts = slide_header n # content"
proof -
  assume a: "pptx_slide_parts n slide = Inr slide_parts"
  then obtain from_shapes where s: "pptx_shape_loop [slide_header n] (slide_shapes slide) = Inr from_shapes"
    by (auto simp: pptx_slide_parts_def split: sum.splits)
  then obtain ys where ys: "from_shapes = [slide_header n] @ ys"
    using pptx_shape_loop_extends by blast
  from a s have "slide_parts = from_shapes \<or> (\<exists>note. slide_parts = from_shapes @ [note])"
    by (auto simp: pptx_slide_parts_def Let_def split: option.splits sum.splits if_splits)
  then show ?thesis using ys by auto
qed

lemma pptx_slide_parts_empty_iff:
  "pptx_slide_parts n slide = Inr slide_parts \<Longrightarrow>
     Suc 0 < length slide_parts \<longleftrightarrow> pptx_slide_parts n slide \<noteq> Inr [slide_header n]"
  using pptx_slide_parts_header [of n slide slide_parts] by auto

lemma pptx_slide_loop_eq:
  "pptx_slide_loop parts n slides = Inr out \<Longrightarrow>
     out = parts @ concat (map (\<lambda>(k, s). projr (pptx_slide_parts k s))
       (filter (\<lambda>(k, s). pptx_slide_parts k s \<noteq> Inr [slide_header k]) (enumerate n slides)))"
proof (induction slides arbitrary: parts n)
  case Nil
  then show ?case by simp
next
  case (Cons slide slides)
  from Cons.prems obtain slide_parts where sp: "pptx_slide_parts n slide = Inr slide_parts"
    by (auto split: sum.splits)
  let ?rest = "concat (map (\<lambda>(k, s). projr (pptx_slide_parts k s))
       (filter (\<lambda>(k, s). pptx_slide_parts k s \<noteq> Inr [slide_header k]) (enumerate (Suc n) slides)))"
  show ?case
  proof (cases "pptx_slide_parts n slide = Inr [slide_header n]")
    case True
    with sp have "slide_parts = [slide_header n]" by simp
    with Cons.prems sp have "pptx_slide_loop parts (Suc n) slides = Inr out" by simp
    then have "out = parts @ ?rest" by (rule Cons.IH)
    with True show ?thesis by simp
  next
    case False
    with sp have "Suc 0 < length slide_parts" by (simp add: pptx_slide_parts_empty_iff)
    with Cons.prems sp have "pptx_slide_loop (parts @ slide_parts) (Suc n) slides = Inr out" by simp
    then have "out = (parts @ slide_parts) @ ?rest" by (rule Cons.IH)
    with False sp show ?thesis by simp
  qed
qed

text \<open>
  C5.  For a presentation that python-pptx opens, a result of the extractor has as page
  count the number of slides, whatever they contain.  Its text is made of the parts of the
  slides that have more than their \<open>--- Slide n ---\<close> header, numbered by their position
  among all slides; a slide with nothing but its header leaves the list of parts as it was.
  The extractor returns a result exactly when no read of a paragraph, of a table row or
  of the notes raises.
\<close>

theorem pptx_page_count:
  assumes "pptx_Presentation e file_bytes = Inr slides"
  shows "(\<forall>r. office_extract_pptx e file_bytes filename = Inr r \<longrightarrow>
            page_count_key r = Some (int (length slides))
          \<and> text_key r = Some (py_join [10] (concat (map (\<lambda>(n, s). projr (pptx_slide_parts n s))
               (filter (\<lambda>(n, s). pptx_slide_parts n s \<noteq> Inr [slide_header n]) (enumerate 1 slides))))))
     \<and> ((\<exists>r. office_extract_pptx e file_bytes filename = Inr r) \<longleftrightarrow> pptx_raised slides = [])
     \<and> (\<forall>parts n s rest. pptx_slide_parts n s = Inr [slide_header n] \<longrightarrow>
           pptx_slide_loop parts n (s # rest) = pptx_slide_loop parts (Suc n) rest)"
proof -
  have a: "page_count_key r = Some (int (length slides))
          \<and> text_key r = Some (py_join [10] (concat (map (\<lambda>(n, s). projr (pptx_slide_parts n s))
               (filter (\<lambda>(n, s). pptx_slide_parts n s \<noteq> Inr [slide_header n]) (enumerate 1 slides)))))"
    if r: "office_extract_pptx e file_bytes filename = Inr r" for r
  proof -
    from r assms obtain parts where p: "pptx_slide_loop [] 1 slides = Inr parts"
      and eq: "r = \<lparr>text_key = Some (py_join [10] parts),
                    page_count_key = Some (int (length slides)), metadata_key = None\<rparr>"
      by (auto simp: office_extract_pptx_def split: sum.splits)
    from pptx_slide_loop_eq [OF p] eq show ?thesis by simp
  qed
  have "raises_first (pptx_slide_loop [] 1 slides) (pptx_raised slides)"
    by (rule pptx_slide_loop_raises)
  then have b: "(\<exists>r. office_extract_pptx e file_bytes filename = Inr r) \<longleftrightarrow> pptx_raised slides = []"
    using assms by (cases "pptx_slide_loop [] 1 slides") (simp_all add: office_extract_pptx_def)
  have c: "pptx_slide_loop parts n (s # rest) = pptx_slide_loop parts (Suc n) rest"
    if "pptx_slide_parts n s = Inr [slide_header n]" for parts n s rest
    using that by simp
  show ?thesis using a b c by blast
qed

lemma str_of_nat_digit: "n < 10 \<Longrightarrow> str_of_nat n = [48 + n]"
  by (simp add: str_of_nat.simps)

lemma blank_parts: "pptx_slide_parts n blank_slide = Inr [slide_header n]"
  by (simp add: pptx_slide_parts_def blank_slide_def Let_def py_strip_def lit_def py_isspace_def)

lemma hello_parts: "pptx_slide_parts n hello_slide = Inr [slide_header n, lit ''Hello'']"
  by (simp add: pptx_slide_parts_def hello_slide_def Let_def py_strip_def lit_def py_isspace_def)

lemma blank_hello_raised: "pptx_raised [blank_slide, hello_slide] = []"
  by (simp add: pptx_raised_def slide_raised_def shape_raised_def blank_slide_def hello_slide_def)

theorem pptx_page_count_witness:
  "office_extract_pptx (bare_env\<lparr>pptx_Presentation := \<lambda>b. Inr [blank_slide, hello_slide]\<rparr>) ''PK'' (lit ''a.pptx'')
     = Inr \<lparr>text_key = Some ([10] @ lit ''--- Slide 2 ---'' @ [10] @ lit ''Hello''),
            page_count_key = Some 2, metadata_key = None\<rparr>"
proof -
  let ?e = "bare_env\<lparr>pptx_Presentation := \<lambda>b. Inr [blank_slide, hello_slide]\<rparr>"
  have h: "slide_header (Suc (Suc 0)) = [10] @ lit ''--- Slide 2 ---''"
    using str_of_nat_digit [of 2] by (simp add: slide_header_def lit_def numeral_2_eq_2)
  have "pptx_Presentation ?e ''PK'' = Inr [blank_slide, hello_slide]" by simp
  note inst = pptx_page_count [OF this, of "lit ''a.pptx''"]
  from inst blank_hello_raised obtain r where r: "office_extract_pptx ?e ''PK'' (lit ''a.pptx'') = Inr r"
    by blast
  with inst have p: "page_count_key r = Some (int (length [blank_slide, hello_slide]))"
    and t0: "text_key r = Some (py_join [10] (concat (map (\<lambda>(n, s). projr (pptx_slide_parts n s))
           (filter (\<lambda>(n, s). pptx_slide_parts n s \<noteq> Inr [slide_header n]) (enumerate 1 [blank_slide, hello_slide])))))"
    by blast+
  have m: "metadata_key r = None" using r by (auto simp: office_extract_pptx_def split: sum.splits)
  have t: "text_key r = Some ([10] @ lit ''--- Slide 2 ---'' @ [10] @ lit ''Hello'')"
    using t0 by (simp add: blank_parts hello_parts h)
  have "r = \<lparr>text_key = Some ([10] @ lit ''--- Slide 2 ---'' @ [10] @ lit ''Hello''),
            page_count_key = Some 2, metadata_key = None\<rparr>"
    using t m p by (cases r) simp
  then show ?thesis using r by simp
qed

section \<open>Notebook cells\<close>

lemma indented_text:
  "notebook_extract (bare_env\<lparr>nbformat_reads_cells := \<lambda>s. Inr (JList indented_cells)\<rparr>) ''{}'' (lit ''a.ipynb'')
     = Inr \<lparr>text_key = Some (lit ''# Jupyter Notebook: a.ipynb'' @ [10] @ [10, 10] @ lit ''x = 1''
                @ [10, 10] @ lit ''r''),
            page_count_key = Some 0, metadata_key = None\<rparr>"
  by (simp add: notebook_extract_def notebook_cells_def py_iter_def indented_cells_def
      notebook_cell_def json_get_def dict_get_def py_strip_def py_isspace_def lit_def Let_def)

text \<open>
  C9.  The cell loop strips the source of every cell before it emits it, so a markdown or
  raw cell is not emitted verbatim: the markdown cell whose source is \<open>    x = 1\<close> (four
  spaces, then the text) is emitted as \<open>x = 1\<close>, and the raw cell whose source is the text
  \<open>r\<close> between two spaces is emitted as \<open>r\<close>.
\<close>

theorem notebook_cells_stripped:
  "notebook_extract (bare_env\<lparr>nbformat_reads_cells := \<lambda>s. Inr (JList indented_cells)\<rparr>) ''{}'' (lit ''a.ipynb'')
     = Inr \<lparr>text_key = Some (lit ''# Jupyter Notebook: a.ipynb'' @ [10] @ [10, 10] @ lit ''x = 1''
                @ [10, 10] @ lit ''r''),
            page_count_key = Some 0, metadata_key = None\<rparr>
   \<and> lit ''x = 1'' \<noteq> lit ''    x = 1'' \<and> lit ''r'' \<noteq> lit '' r ''"
  using indented_text by (simp add: lit_def)

section \<open>Pages of a PDF\<close>
















section \<open>HTML: elements that are not content\<close>

lemma tag_named_decompose [simp]: "tag_named names (decompose_all names t) = tag_named names t"
  by (cases t) simp_all

lemma tag_named_emptied [simp]: "tag_named names (emptied names t) = tag_named names t"
  by (cases t) simp_all

lemma decompose_emptied: "decompose_all names (emptied names t) = decompose_all names t"
proof (induction t)
  case (Tag name children)
  let ?f = "\<lambda>c. if tag_named names c then (case c of Tag n cs \<Rightarrow> Tag n [] | other \<Rightarrow> other)
                else emptied names c"
  have named: "tag_named names (?f c) = tag_named names c" for c
    by (cases c) simp_all
  have "filter (\<lambda>c. \<not> tag_named names c) (map ?f children)
      = map ?f (filter (\<lambda>c. \<not> tag_named names c) children)"
    by (simp add: filter_map comp_def named)
  moreover have "map (decompose_all names) (map ?f (filter (\<lambda>c. \<not> tag_named names c) children))
      = map (decompose_all names) (filter (\<lambda>c. \<not> tag_named names c) children)"
    using Tag.IH by (simp add: comp_def cong: map_cong)
  ultimately show ?case by simp
qed simp_all

lemma descendants_decompose_unnamed:
  "el \<in> set (descendants (decompose_all names t)) \<Longrightarrow> \<not> tag_named names el"
proof (induction t arbitrary: el)
  case (Tag name children)
  then obtain c where c: "c \<in> set children" "\<not> tag_named names c"
      "el = decompose_all names c \<or> el \<in> set (descendants (decompose_all names c))"
    by auto
  then show ?case using Tag.IH by auto
qed simp_all

lemma descendants_trans:
  "x \<in> set (descendants t) \<Longrightarrow> y \<in> set (descendants x) \<Longrightarrow> y \<in> set (descendants t)"
proof (induction t)
  case (Tag name children)
  then obtain c where c: "c \<in> set children" "x = c \<or> x \<in> set (descendants c)"
    by auto
  then have "y \<in> set (descendants c)" using Tag by auto
  then show ?case using c(1) by auto
qed simp_all

lemma soup_find_descendant: "soup_find name el = Some x \<Longrightarrow> x \<in> set (descendants el)"
  by (auto simp: soup_find_def find_Some_iff)

lemma html_main_descendants: "set (descendants (html_main sp)) \<subseteq> set (descendants sp)"
proof -
  have "html_main sp = sp \<or> html_main sp \<in> set (descendants sp)"
    by (auto simp: html_main_def dest: soup_find_descendant split: option.splits)
  then show ?thesis
  proof
    assume "html_main sp = sp"
    then show ?thesis by simp
  next
    assume inside: "html_main sp \<in> set (descendants sp)"
    show ?thesis
    proof
      fix y
      assume "y \<in> set (descendants (html_main sp))"
      with inside show "y \<in> set (descendants sp)" by (rule descendants_trans)
    qed
  qed
qed

lemma script_then_p_text: "html_soup_text script_then_p = lit ''Hello''"
  by (simp add: html_soup_text_def script_then_p_def NON_CONTENT_def HEADINGS_def html_main_def
      soup_find_def get_text_strip_def py_strip_def py_isspace_def lit_def Let_def)

lemma hello_not_alert: "py_in (lit ''Hello'') (lit ''Hello'')" "\<not> py_in (lit ''alert'') (lit ''Hello'')"
  by (simp_all add: lit_def)

text \<open>
  C6, as amended.  For every HTML input on the parsing path (BeautifulSoup is importable and
  returns a tree), the script, style, nav, footer, header, aside and noscript elements are
  removed before the traversal: no element the traversal visits has one of these names, and
  the text is the same for any two trees that differ only in what these elements contain,
  so their text has no part in the output.  For the tree of
  \<open><script>alert(1)</script><p>Hello</p>\<close> the text contains \<open>Hello\<close> and does not contain
  \<open>alert\<close>.
\<close>

theorem html_non_content_removed:
  assumes "bs4_BeautifulSoup e = Some BeautifulSoup"
    and "BeautifulSoup (decode_utf8_replace e file_bytes) = Inr parsed"
  shows "html_extract e file_bytes filename =
       Inr \<lparr>text_key = Some (html_soup_text parsed), page_count_key = Some 0, metadata_key = None\<rparr>
     \<and> (\<forall>el \<in> set (descendants (html_main (decompose_all NON_CONTENT parsed))).
           \<not> tag_named NON_CONTENT el)
     \<and> (\<forall>other. emptied NON_CONTENT other = emptied NON_CONTENT parsed \<longrightarrow>
           html_soup_text other = html_soup_text parsed)
     \<and> (parsed = script_then_p \<longrightarrow>
           py_in (lit ''Hello'') (html_soup_text parsed) \<and> \<not> py_in (lit ''alert'') (html_soup_text parsed))"
proof -
  have a: "html_extract e file_bytes filename =
       Inr \<lparr>text_key = Some (html_soup_text parsed), page_count_key = Some 0, metadata_key = None\<rparr>"
    using assms by (simp add: html_extract_def)
  have b: "\<forall>el \<in> set (descendants (html_main (decompose_all NON_CONTENT parsed))).
           \<not> tag_named NON_CONTENT el"
    using html_main_descendants descendants_decompose_unnamed by blast
  have c: "html_soup_text other = html_soup_text parsed"
    if "emptied NON_CONTENT other = emptied NON_CONTENT parsed" for other
  proof -
    have "decompose_all NON_CONTENT other = decompose_all NON_CONTENT (emptied NON_CONTENT other)"
      by (simp add: decompose_emptied)
    also have "\<dots> = decompose_all NON_CONTENT parsed"
      unfolding that by (rule decompose_emptied)
    finally show ?thesis by (simp add: html_soup_text_def)
  qed
  have d: "parsed = script_then_p \<longrightarrow>
           py_in (lit ''Hello'') (html_soup_text parsed) \<and> \<not> py_in (lit ''alert'') (html_soup_text parsed)"
    using hello_not_alert by (simp add: script_then_p_text)
  show ?thesis using a b c d by blast
qed

theorem html_non_content_removed_witness:
  "html_extract (html_env script_then_p) ''<script>alert(1)</script><p>Hello</p>'' (lit ''a.html'') =
       Inr \<lparr>text_key = Some (lit ''Hello''), page_count_key = Some 0, metadata_key = None\<rparr>
   \<and> py_in (lit ''Hello'') (lit ''Hello'') \<and> \<not> py_in (lit ''alert'') (lit ''Hello'')"
proof -
  have 1: "bs4_BeautifulSoup (html_env script_then_p) = Some (\<lambda>s. Inr script_then_p)"
    by (simp add: html_env_def)
  have 2: "(\<lambda>s. Inr script_then_p)
      (decode_utf8_replace (html_env script_then_p) ''<script>alert(1)</script><p>Hello</p>'')
      = (Inr script_then_p :: exn + soup)"
    by simp
  from html_non_content_removed [OF 1 2, where filename = "lit ''a.html''"]
  show ?thesis by (simp add: script_then_p_text)
qed

text \<open>Without BeautifulSoup the fallback only strips the tags: for the same input the text
  is \<open>alert(1) Hello\<close>.\<close>

lemma fallback_text:
  "py_join (lit '' '') (py_split (re_sub_tags (lit ''<script>alert(1)</script><p>Hello</p>'')))
     = lit ''alert(1) Hello''"
  by (simp add: re_sub_tags.simps py_split_def py_isspace_def lit_def)

lemma alert_in_fallback: "py_in (lit ''alert'') (lit ''alert(1) Hello'')"
  by (simp add: lit_def)

theorem html_non_content_removed_counterexample:
  "html_extract bare_env ''<script>alert(1)</script><p>Hello</p>'' (lit ''a.html'') =
       Inr \<lparr>text_key = Some (lit ''alert(1) Hello''), page_count_key = Some 0, metadata_key = None\<rparr>
   \<and> py_in (lit ''alert'') (lit ''alert(1) Hello'')"
  using fallback_text alert_in_fallback
  by (simp add: html_extract_def bare_env_def)

section \<open>HTML: blank lines\<close>

lemma two_headings_text:
  "html_soup_text two_headings = [10] @ lit ''## A'' @ [10, 10, 10] @ lit ''## B'' @ [10]"
  by (simp add: html_soup_text_def two_headings_def NON_CONTENT_def HEADINGS_def html_main_def
      soup_find_def get_text_strip_def py_strip_def py_isspace_def lit_def Let_def)

lemma two_headings_strip:
  "py_strip ([10] @ lit ''## A'' @ [10, 10, 10] @ lit ''## B'' @ [10]) = lit ''## A'' @ [10, 10, 10] @ lit ''## B''"
  by (simp add: py_strip_def lit_def py_isspace_def)

lemma three_lf: "py_in [10, 10, 10] (lit ''## A'' @ [10, 10, 10] @ lit ''## B'')"
  by (simp add: lit_def)

text \<open>
  C7.  The claim is that the final text has at most one blank line in a row.  The loop
  that deduplicates blank lines works on the entries of \<open>lines\<close>, and a heading is the
  single entry \<open>\n## text\n\<close>: for \<open><h1>A</h1><h2>B</h2>\<close> the entries are joined to
  \<open>\n## A\n\n\n## B\n\<close>, and the response text \<open>## A\n\n\n## B\<close> has two blank lines
  between the headings.
\<close>

theorem html_adjacent_headings:
  "main_extract (html_env two_headings) (lit ''text/html'') ''<h1>A</h1><h2>B</h2>'' (Some (lit ''a.html''))
     = (Inr \<lparr>resp_text = lit ''## A'' @ [10, 10, 10] @ lit ''## B'', resp_page_count = 0, resp_metadata = []\<rparr>,
        [html_extract_fn])
   \<and> py_in [10, 10, 10] (lit ''## A'' @ [10, 10, 10] @ lit ''## B'')"
proof -
  have "call_extractor html_extract_fn (html_env two_headings) ''<h1>A</h1><h2>B</h2>''
          (filename_or_unknown (Some (lit ''a.html'')))
      = Inr \<lparr>text_key = Some ([10] @ lit ''## A'' @ [10, 10, 10] @ lit ''## B'' @ [10]),
             page_count_key = Some 0, metadata_key = None\<rparr>"
    by (simp add: html_extract_def html_env_def two_headings_text)
  moreover have "response_of_result
        \<lparr>text_key = Some ([10] @ lit ''## A'' @ [10, 10, 10] @ lit ''## B'' @ [10]),
         page_count_key = Some 0, metadata_key = None\<rparr>
      = \<lparr>resp_text = lit ''## A'' @ [10, 10, 10] @ lit ''## B'', resp_page_count = 0, resp_metadata = []\<rparr>"
  proof -
    have "response_of_result \<lparr>text_key = Some t, page_count_key = Some 0, metadata_key = None\<rparr>
        = \<lparr>resp_text = py_strip t, resp_page_count = 0, resp_metadata = []\<rparr>" for t
      by (simp add: response_of_result_def)
    then show ?thesis by (simp only: two_headings_strip)
  qed
  ultimately have "main_extract (html_env two_headings) (lit ''text/html'') ''<h1>A</h1><h2>B</h2>''
        (Some (lit ''a.html''))
     = (Inr \<lparr>resp_text = lit ''## A'' @ [10, 10, 10] @ lit ''## B'', resp_page_count = 0, resp_metadata = []\<rparr>,
        [html_extract_fn])"
    by (simp add: main_extract_def html_key)
  then show ?thesis using three_lf by simp
qed

end
